theory Spec2Isabelle
  imports Complex_Main
begin

section \<open>Values of the Python program\<close>

text \<open>
  The callbacks of \<^verbatim>\<open>dev/local/callback/tracker.py\<close> compute on Python floats:
  the monitored metric, the tolerance \<^verbatim>\<open>min_delta\<close>, the running best, the batch loss
  and the learning rates. A float is either not-a-number, one of the two infinities, or
  finite. Finite arithmetic is taken exact (a real number): rounding, and overflow of a
  finite result to an infinity, are not modelled; the special values are.
\<close>

datatype pyfloat = NaN | NegInf | Fin real | PosInf

text \<open>The exceptions a hook can leave with.\<close>

datatype exn =
    CancelFitException
  | AssertionError
  | ValueError
  | IndexError
  | AttributeError
  | ZeroDivisionError
  | FileNotFoundError

text \<open>\<^verbatim>\<open>a - b\<close> on floats.\<close>

fun fsub :: "pyfloat \<Rightarrow> pyfloat \<Rightarrow> pyfloat" where
  "fsub NaN b = NaN"
| "fsub a NaN = NaN"
| "fsub PosInf PosInf = NaN"
| "fsub NegInf NegInf = NaN"
| "fsub PosInf b = PosInf"
| "fsub NegInf b = NegInf"
| "fsub (Fin x) PosInf = NegInf"
| "fsub (Fin x) NegInf = PosInf"
| "fsub (Fin x) (Fin y) = Fin (x - y)"

text \<open>\<^verbatim>\<open>a * -1\<close> on floats (the effect of \<^verbatim>\<open>min_delta *= -1\<close>).\<close>

fun fneg :: "pyfloat \<Rightarrow> pyfloat" where
  "fneg NaN = NaN"
| "fneg NegInf = PosInf"
| "fneg PosInf = NegInf"
| "fneg (Fin x) = Fin (x * (- 1))"

text \<open>
  \<^verbatim>\<open>a / b\<close> on floats: Python raises \<^verbatim>\<open>ZeroDivisionError\<close> for a zero divisor and
  follows IEEE 754 otherwise.
\<close>

fun fdiv :: "pyfloat \<Rightarrow> pyfloat \<Rightarrow> exn + pyfloat" where
  "fdiv a (Fin y) =
     (if y = 0 then Inl ZeroDivisionError
      else case a of
        NaN \<Rightarrow> Inr NaN
      | Fin x \<Rightarrow> Inr (Fin (x / y))
      | PosInf \<Rightarrow> Inr (if 0 < y then PosInf else NegInf)
      | NegInf \<Rightarrow> Inr (if 0 < y then NegInf else PosInf))"
| "fdiv a NaN = Inr NaN"
| "fdiv NaN b = Inr NaN"
| "fdiv (Fin x) b = Inr (Fin 0)"
| "fdiv a b = Inr NaN"

text \<open>\<^verbatim>\<open>np.less(a, b)\<close> and \<^verbatim>\<open>np.greater(a, b)\<close>: false as soon as one side is NaN.\<close>

fun np_less :: "pyfloat \<Rightarrow> pyfloat \<Rightarrow> bool" where
  "np_less NaN b = False"
| "np_less a NaN = False"
| "np_less a NegInf = False"
| "np_less NegInf b = True"
| "np_less PosInf b = False"
| "np_less (Fin x) PosInf = True"
| "np_less (Fin x) (Fin y) = (x < y)"

fun np_greater :: "pyfloat \<Rightarrow> pyfloat \<Rightarrow> bool" where
  "np_greater NaN b = False"
| "np_greater a NaN = False"
| "np_greater a PosInf = False"
| "np_greater PosInf b = True"
| "np_greater NegInf b = False"
| "np_greater (Fin x) NegInf = True"
| "np_greater (Fin x) (Fin y) = (x > y)"

fun isinf :: "pyfloat \<Rightarrow> bool" where
  "isinf PosInf = True"
| "isinf NegInf = True"
| "isinf a = False"

fun isnan :: "pyfloat \<Rightarrow> bool" where
  "isnan NaN = True"
| "isnan a = False"

text \<open>
  The comparator \<^verbatim>\<open>comp\<close> is any callable. The code tests it with \<^verbatim>\<open>comp == np.less\<close>,
  which for functions is identity: only the object \<^verbatim>\<open>np.less\<close> itself passes, not another
  callable that computes the same order. So the two numpy functions are constructors of
  their own and every other callable is \<open>Custom\<close>.
\<close>

datatype comparator = NpLess | NpGreater | Custom "pyfloat \<Rightarrow> pyfloat \<Rightarrow> bool"

fun is_np_less :: "comparator \<Rightarrow> bool" where
  "is_np_less NpLess = True"
| "is_np_less c = False"

fun call_comp :: "comparator \<Rightarrow> pyfloat \<Rightarrow> pyfloat \<Rightarrow> bool" where
  "call_comp NpLess a b = np_less a b"
| "call_comp NpGreater a b = np_greater a b"
| "call_comp (Custom f) a b = f a b"

subsection \<open>Strings and lists\<close>

text \<open>\<^verbatim>\<open>needle in haystack\<close> on strings: the needle occurs at some position.\<close>

fun startswith :: "'a list \<Rightarrow> 'a list \<Rightarrow> bool" where
  "startswith s [] = True"
| "startswith [] (p # ps) = False"
| "startswith (c # cs) (p # ps) = (c = p \<and> startswith cs ps)"

fun str_contains :: "'a list \<Rightarrow> 'a list \<Rightarrow> bool" where
  "str_contains [] needle = startswith [] needle"
| "str_contains (c # cs) needle = (startswith (c # cs) needle \<or> str_contains cs needle)"

text \<open>\<^verbatim>\<open>xs.index(x)\<close>: the first position of \<open>x\<close>, \<^verbatim>\<open>ValueError\<close> (here \<open>None\<close>) without one.\<close>

fun list_index :: "'a list \<Rightarrow> 'a \<Rightarrow> nat option" where
  "list_index [] x = None"
| "list_index (y # ys) x =
     (if y = x then Some 0 else map_option Suc (list_index ys x))"

text \<open>\<^verbatim>\<open>str(n)\<close> for an integer, as an f-string prints it.\<close>

definition digit_char :: "nat \<Rightarrow> char" where
  "digit_char d = ''0123456789'' ! d"

fun str_nat :: "nat \<Rightarrow> string" where
  "str_nat n = (if n < 10 then [digit_char n] else str_nat (n div 10) @ [digit_char (n mod 10)])"

declare str_nat.simps [simp del]

definition str_int :: "int \<Rightarrow> string" where
  "str_int i = (if i < 0 then ''-'' @ str_nat (nat (- i)) else str_nat (nat i))"

section \<open>The learner the callbacks run in\<close>

text \<open>
  A callback reads and writes the training loop through \<^verbatim>\<open>self.learn\<close>: the recorder's
  \<^verbatim>\<open>metric_names\<close> and \<^verbatim>\<open>values\<close>, the current \<^verbatim>\<open>epoch\<close> and batch \<^verbatim>\<open>loss\<close>, the
  optimizer's \<^verbatim>\<open>hypers\<close>, the model, and the checkpoint files under
  \<^verbatim>\<open>path/model_dir\<close>. What the hooks print and which checkpoints they write and read is
  kept in \<open>events\<close>, in order.
\<close>

text \<open>
  Modelled from the spec: the optimizer is not part of \<^verbatim>\<open>tracker.py\<close>. Its hyperparameter
  groups are "mutable records each containing at least a learning_rate field"; the
  other entries of a group are never touched by the callbacks and left out.
\<close>

record hyper =
  lr :: pyfloat

datatype message =
    NoImprovementSince int  \<comment> \<open>\<^verbatim>\<open>No improvement since epoch {n}: early stopping\<close>\<close>
  | ReducingLr int pyfloat  \<comment> \<open>\<^verbatim>\<open>Epoch {n}: reducing lr to {lr}\<close>\<close>

datatype event = Printed message | Saved string | Loaded string

record 'm learner =
  metric_names :: "string list"
  rec_values :: "pyfloat list list"
  epoch :: int
  loss :: pyfloat
  hypers :: "hyper list"
  model :: 'm
  files :: "string \<rightharpoonup> 'm"
  events :: "event list"

definition print_msg :: "message \<Rightarrow> 'm learner \<Rightarrow> 'm learner" where
  "print_msg m l = l\<lparr>events := events l @ [Printed m]\<rparr>"

text \<open>
  Modelled from the spec: \<^verbatim>\<open>Learner.save\<close> and \<^verbatim>\<open>Learner.load\<close> are not part of
  \<^verbatim>\<open>tracker.py\<close>. \<^verbatim>\<open>persist_model(name)\<close> writes the current model to the file
  \<^verbatim>\<open>{name}.pth\<close>, overwriting an earlier one; \<^verbatim>\<open>load_model(name)\<close> "fails with NotFound
  if absent" and otherwise makes the file's content the live model.
\<close>

definition pth :: "string \<Rightarrow> string" where
  "pth name = name @ ''.pth''"

definition learn_save :: "string \<Rightarrow> 'm learner \<Rightarrow> 'm learner" where
  "learn_save name l =
     l\<lparr>files := (files l)(pth name \<mapsto> model l), events := events l @ [Saved name]\<rparr>"

definition learn_load :: "string \<Rightarrow> 'm learner \<Rightarrow> 'm learner \<times> exn option" where
  "learn_load name l =
     (case files l (pth name) of
        None \<Rightarrow> (l, Some FileNotFoundError)
      | Some m \<Rightarrow> (l\<lparr>model := m, events := events l @ [Loaded name]\<rparr>, None))"

definition is_file :: "string \<Rightarrow> 'm learner \<Rightarrow> bool" where
  "is_file file l = (files l file \<noteq> None)"

section \<open>The callbacks\<close>

text \<open>
  A hook takes the callback object and the learner and returns both as the hook leaves
  them, with the exception it raised, if any: attributes assigned before a
  \<^verbatim>\<open>raise\<close> stay assigned. An attribute that no statement has assigned yet is
  \<open>None\<close>; reading it raises \<^verbatim>\<open>AttributeError\<close>.
\<close>

type_synonym ('cb, 'm) hook = "'cb \<times> 'm learner \<Rightarrow> ('cb \<times> 'm learner) \<times> exn option"

subsection \<open>\<^verbatim>\<open>TerminateOnNaNCallback\<close>\<close>

definition terminate_on_nan_after_batch :: "(unit, 'm) hook" where
  "terminate_on_nan_after_batch = (\<lambda>(s, l).
     if isinf (loss l) \<or> isnan (loss l) then ((s, l), Some CancelFitException)
     else ((s, l), None))"

subsection \<open>\<^verbatim>\<open>TrackerCallback\<close>\<close>

record tracker =
  monitor :: string
  comp_op :: comparator
  min_delta :: pyfloat
  best :: "pyfloat option"
  idx :: "nat option"
  new_best :: "bool option"

text \<open>\<^verbatim>\<open>__init__(monitor, comp, min_delta)\<close>; \<open>None\<close> for \<^verbatim>\<open>comp\<close> is the default.\<close>

definition tracker_init :: "string \<Rightarrow> comparator option \<Rightarrow> pyfloat \<Rightarrow> tracker" where
  "tracker_init monitor0 comp0 min_delta0 =
     (let c = (case comp0 of
                 None \<Rightarrow> if str_contains monitor0 ''loss'' then NpLess else NpGreater
               | Some c0 \<Rightarrow> c0);
          d = (if is_np_less c then fneg min_delta0 else min_delta0)
      in \<lparr>monitor = monitor0, comp_op = c, min_delta = d,
          best = None, idx = None, new_best = None\<rparr>)"

definition tracker_begin_fit :: "('a tracker_scheme, 'm) hook" where
  "tracker_begin_fit = (\<lambda>(s, l).
     let s1 = s\<lparr>best := Some (if is_np_less (comp_op s) then PosInf else NegInf)\<rparr>;
         names = drop 1 (metric_names l)
     in if monitor s1 \<notin> set names then ((s1, l), Some AssertionError)
        else case list_index names (monitor s1) of
               None \<Rightarrow> ((s1, l), Some ValueError)
             | Some i \<Rightarrow> ((s1\<lparr>idx := Some i\<rparr>, l), None))"

text \<open>
  \<^verbatim>\<open>values[-1][self.idx]\<close>: the last row of the recorder, then its entry \<open>idx\<close>; both
  reads raise \<^verbatim>\<open>IndexError\<close> out of range.
\<close>

definition last_value :: "'m learner \<Rightarrow> nat option \<Rightarrow> exn + pyfloat" where
  "last_value l i =
     (if rec_values l = [] then Inl IndexError
      else case i of
             None \<Rightarrow> Inl AttributeError
           | Some k \<Rightarrow>
               if k < length (last (rec_values l)) then Inr (last (rec_values l) ! k)
               else Inl IndexError)"

definition tracker_after_epoch :: "('a tracker_scheme, 'm) hook" where
  "tracker_after_epoch = (\<lambda>(s, l).
     case last_value l (idx s) of
       Inl e \<Rightarrow> ((s, l), Some e)
     | Inr val \<Rightarrow>
         (case best s of
            None \<Rightarrow> ((s, l), Some AttributeError)
          | Some b \<Rightarrow>
              if call_comp (comp_op s) (fsub val (min_delta s)) b
              then ((s\<lparr>best := Some val, new_best := Some True\<rparr>, l), None)
              else ((s\<lparr>new_best := Some False\<rparr>, l), None)))"

subsection \<open>\<^verbatim>\<open>EarlyStoppingCallback\<close>\<close>

record early_stopping = tracker +
  patience :: int
  wait :: "int option"

definition early_stopping_init ::
  "string \<Rightarrow> comparator option \<Rightarrow> pyfloat \<Rightarrow> int \<Rightarrow> early_stopping" where
  "early_stopping_init monitor0 comp0 min_delta0 patience0 =
     tracker.extend (tracker_init monitor0 comp0 min_delta0)
       (early_stopping.fields patience0 None)"

definition early_stopping_begin_fit :: "(early_stopping, 'm) hook" where
  "early_stopping_begin_fit = (\<lambda>(s, l). tracker_begin_fit (s\<lparr>wait := Some 0\<rparr>, l))"

definition early_stopping_after_epoch :: "(early_stopping, 'm) hook" where
  "early_stopping_after_epoch = (\<lambda>(s, l).
     case tracker_after_epoch (s, l) of
       (st, Some e) \<Rightarrow> (st, Some e)
     | ((s1, l1), None) \<Rightarrow>
         (case new_best s1 of
            None \<Rightarrow> ((s1, l1), Some AttributeError)
          | Some True \<Rightarrow> ((s1\<lparr>wait := Some 0\<rparr>, l1), None)
          | Some False \<Rightarrow>
              (case wait s1 of
                 None \<Rightarrow> ((s1, l1), Some AttributeError)
               | Some w \<Rightarrow>
                   let s2 = s1\<lparr>wait := Some (w + 1)\<rparr>
                   in if w + 1 \<ge> patience s2
                      then ((s2, print_msg (NoImprovementSince (epoch l1 - (w + 1))) l1),
                            Some CancelFitException)
                      else ((s2, l1), None))))"

subsection \<open>\<^verbatim>\<open>SaveModelCallback\<close>\<close>

record save_model = tracker +
  fname :: string
  every_epoch :: bool

definition save_model_init ::
  "string \<Rightarrow> comparator option \<Rightarrow> pyfloat \<Rightarrow> string \<Rightarrow> bool \<Rightarrow> save_model" where
  "save_model_init monitor0 comp0 min_delta0 fname0 every_epoch0 =
     tracker.extend (tracker_init monitor0 comp0 min_delta0)
       (save_model.fields fname0 every_epoch0)"

text \<open>\<^verbatim>\<open>begin_fit\<close> is inherited from \<^verbatim>\<open>TrackerCallback\<close>.\<close>

definition save_model_begin_fit :: "(save_model, 'm) hook" where
  "save_model_begin_fit = tracker_begin_fit"

definition save_model_after_epoch :: "(save_model, 'm) hook" where
  "save_model_after_epoch = (\<lambda>(s, l).
     if every_epoch s then ((s, learn_save (fname s @ ''_'' @ str_int (epoch l)) l), None)
     else case tracker_after_epoch (s, l) of
            (st, Some e) \<Rightarrow> (st, Some e)
          | ((s1, l1), None) \<Rightarrow>
              (case new_best s1 of
                 None \<Rightarrow> ((s1, l1), Some AttributeError)
               | Some True \<Rightarrow> ((s1, learn_save (fname s1) l1), None)
               | Some False \<Rightarrow> ((s1, l1), None)))"

definition save_model_on_train_end :: "(save_model, 'm) hook" where
  "save_model_on_train_end = (\<lambda>(s, l).
     if \<not> every_epoch s \<and> is_file (pth (fname s)) l
     then (case learn_load (fname s) l of (l1, r) \<Rightarrow> ((s, l1), r))
     else ((s, l), None))"

subsection \<open>\<^verbatim>\<open>ReduceLROnPlateau\<close>\<close>

record reduce_lr = tracker +
  patience :: int
  wait :: "int option"
  factor :: pyfloat

definition reduce_lr_init ::
  "string \<Rightarrow> comparator option \<Rightarrow> pyfloat \<Rightarrow> int \<Rightarrow> pyfloat \<Rightarrow> reduce_lr" where
  "reduce_lr_init monitor0 comp0 min_delta0 patience0 factor0 =
     tracker.extend (tracker_init monitor0 comp0 min_delta0)
       (reduce_lr.fields patience0 None factor0)"

definition reduce_lr_begin_fit :: "(reduce_lr, 'm) hook" where
  "reduce_lr_begin_fit = (\<lambda>(s, l). tracker_begin_fit (s\<lparr>wait := Some 0\<rparr>, l))"

text \<open>
  \<^verbatim>\<open>for h in self.opt.hypers: h['lr'] /= self.factor\<close>: the groups are updated in
  order; a division that raises leaves the groups before it updated and the rest as
  they were.
\<close>

fun divide_lrs :: "pyfloat \<Rightarrow> hyper list \<Rightarrow> hyper list \<times> exn option" where
  "divide_lrs f [] = ([], None)"
| "divide_lrs f (h # hs) =
     (case fdiv (lr h) f of
        Inl e \<Rightarrow> (h # hs, Some e)
      | Inr v \<Rightarrow> (case divide_lrs f hs of (hs1, r) \<Rightarrow> (h\<lparr>lr := v\<rparr> # hs1, r)))"

definition reduce_lr_after_epoch :: "(reduce_lr, 'm) hook" where
  "reduce_lr_after_epoch = (\<lambda>(s, l).
     case tracker_after_epoch (s, l) of
       (st, Some e) \<Rightarrow> (st, Some e)
     | ((s1, l1), None) \<Rightarrow>
         (case new_best s1 of
            None \<Rightarrow> ((s1, l1), Some AttributeError)
          | Some True \<Rightarrow> ((s1\<lparr>wait := Some 0\<rparr>, l1), None)
          | Some False \<Rightarrow>
              (case wait s1 of
                 None \<Rightarrow> ((s1, l1), Some AttributeError)
               | Some w \<Rightarrow>
                   let s2 = s1\<lparr>wait := Some (w + 1)\<rparr>
                   in if w + 1 \<ge> patience s2
                      then (case divide_lrs (factor s2) (hypers l1) of
                              (hs, Some e) \<Rightarrow> ((s2, l1\<lparr>hypers := hs\<rparr>), Some e)
                            | (hs, None) \<Rightarrow>
                                let s3 = s2\<lparr>wait := Some 0\<rparr>; l2 = l1\<lparr>hypers := hs\<rparr>
                                in if hs = [] then ((s3, l2), Some IndexError)
                                   else ((s3, print_msg (ReducingLr (epoch l2) (lr (last hs))) l2),
                                         None))
                      else ((s2, l1), None))))"

section \<open>The training loop\<close>

text \<open>
  Modelled from the spec: the loop that calls the hooks (\<^verbatim>\<open>Learner.fit\<close>) is not part of
  \<^verbatim>\<open>tracker.py\<close>. It "invokes lifecycle hooks in a fixed order, each hook runs to
  completion before the next begins", and an exception "unwinds synchronously from the
  triggering point", "skipping remaining hooks for the current and subsequent
  batches/epochs". \<open>run_hooks\<close> calls one hook once per input and returns the state after
  every call that was made, with the exception that ended the run, if any.
\<close>

fun run_hooks :: "('i \<Rightarrow> 's \<Rightarrow> 's \<times> exn option) \<Rightarrow> 'i list \<Rightarrow> 's \<Rightarrow> 's list \<times> exn option" where
  "run_hooks h [] st = ([], None)"
| "run_hooks h (x # xs) st =
     (case h x st of
        (st1, Some e) \<Rightarrow> ([st1], Some e)
      | (st1, None) \<Rightarrow> (case run_hooks h xs st1 of (tr, r) \<Rightarrow> (st1 # tr, r)))"

text \<open>
  Modelled from the spec: after a batch the loop has set the "current batch loss"; then
  the batch-end hook runs.
\<close>

definition batch_end :: "('cb, 'm) hook \<Rightarrow> pyfloat \<Rightarrow> ('cb, 'm) hook" where
  "batch_end h x = (\<lambda>(s, l). h (s, l\<lparr>loss := x\<rparr>))"

text \<open>
  Modelled from the spec: after an epoch the loop has trained the model, the recorder has
  appended the epoch's row of metric values ("append-only", "one row per epoch"), and
  \<^verbatim>\<open>epoch\<close> is the epoch's index; then the epoch-end hook runs.
\<close>

definition epoch_end :: "('cb, 'm) hook \<Rightarrow> int \<times> pyfloat list \<times> 'm \<Rightarrow> ('cb, 'm) hook" where
  "epoch_end h = (\<lambda>(n, row, m) (s, l).
     h (s, l\<lparr>epoch := n, rec_values := rec_values l @ [row], model := m\<rparr>))"

text \<open>
  Modelled from the spec: a fit runs the fit-start hook, then the epoch-end hook for the
  epochs \<open>0, 1, ...\<close>, then the fit-end hook. An error of the fit-start hook ends the
  fit before any epoch. The abort signal \<^verbatim>\<open>CancelFitException\<close> ends the epochs and is
  caught at the fit boundary, where the fit-end hook still runs; any other exception
  goes to the caller. The result is the final state, the states after each epoch-end
  hook that ran, and the exception that ended the fit, if any.
\<close>

definition fit ::
  "('cb, 'm) hook \<Rightarrow> ('cb, 'm) hook \<Rightarrow> ('cb, 'm) hook \<Rightarrow> (pyfloat list \<times> 'm) list \<Rightarrow>
   'cb \<times> 'm learner \<Rightarrow> ('cb \<times> 'm learner) \<times> ('cb \<times> 'm learner) list \<times> exn option" where
  "fit fit_start epoch_hook fit_end eps st =
     (case fit_start st of
        (st1, Some e) \<Rightarrow> (st1, [], Some e)
      | (st1, None) \<Rightarrow>
          (case run_hooks (epoch_end epoch_hook) (zip (map int [0..<length eps]) eps) st1 of
             (tr, r) \<Rightarrow>
               if r = None \<or> r = Some CancelFitException
               then (case fit_end (last (st1 # tr)) of
                       (st2, None) \<Rightarrow> (st2, tr, r)
                     | (st2, Some e) \<Rightarrow> (st2, tr, Some e))
               else (last (st1 # tr), tr, r)))"

text \<open>A hook the policy does not implement: "no-op if unimplemented".\<close>

definition no_hook :: "('cb, 'm) hook" where
  "no_hook = (\<lambda>st. (st, None))"

text \<open>A learner before its first fit: nothing recorded, saved or printed yet.\<close>

definition fresh_learner :: "string list \<Rightarrow> hyper list \<Rightarrow> 'm \<Rightarrow> 'm learner" where
  "fresh_learner names hs m =
     \<lparr>metric_names = names, rec_values = [], epoch = 0, loss = Fin 0, hypers = hs,
      model = m, files = Map.empty, events = []\<rparr>"
section \<open>Example fits\<close>

text \<open>
  The fits of the spec's examples, each on a fresh learner whose recorder has the
  columns \<^verbatim>\<open>train_loss\<close> and \<^verbatim>\<open>valid_loss\<close>; a row holds the metrics after the
  training loss, so the monitored \<^verbatim>\<open>valid_loss\<close> is its entry 0.
\<close>

text \<open>Early stopping with patience 2 on the values 1.0, 0.9, 0.95, 0.97, 1.0.\<close>

definition early_stopping_example ::
  "(early_stopping \<times> unit learner) \<times> (early_stopping \<times> unit learner) list \<times> exn option" where
  "early_stopping_example =
     fit early_stopping_begin_fit early_stopping_after_epoch no_hook
       [([Fin 1.0], ()), ([Fin 0.9], ()), ([Fin 0.95], ()), ([Fin 0.97], ()), ([Fin 1.0], ())]
       (early_stopping_init ''valid_loss'' None (Fin 0) 2,
        fresh_learner [''train_loss'', ''valid_loss''] [] ())"

text \<open>
  Checkpointing under the name \<^verbatim>\<open>model\<close>, in either mode, on given epochs; the model
  after each epoch is a number, so that checkpoints can be told apart. The fit-end slot
  of the loop is left empty: every hook that \<^verbatim>\<open>tracker.py\<close> shows the loop calling is
  a method without arguments named \<^verbatim>\<open>begin_...\<close> or \<^verbatim>\<open>after_...\<close>, and
  \<^verbatim>\<open>on_train_end(self, **kwargs)\<close> is not one. What \<^verbatim>\<open>on_train_end\<close> does is stated on
  the state such a fit leaves.
\<close>

definition save_model_example ::
  "bool \<Rightarrow> (pyfloat list \<times> nat) list \<Rightarrow>
   (save_model \<times> nat learner) \<times> (save_model \<times> nat learner) list \<times> exn option" where
  "save_model_example every eps =
     fit save_model_begin_fit save_model_after_epoch no_hook eps
       (save_model_init ''valid_loss'' None (Fin 0) ''model'' every,
        fresh_learner [''train_loss'', ''valid_loss''] [] 0)"


text \<open>
  Learning-rate reduction with patience 1 and a given factor on the values 1.0, 1.0,
  with two hyperparameter groups of learning rate 0.1.
\<close>

definition reduce_lr_example ::
  "pyfloat \<Rightarrow> (reduce_lr \<times> unit learner) \<times> (reduce_lr \<times> unit learner) list \<times> exn option" where
  "reduce_lr_example factor0 =
     fit reduce_lr_begin_fit reduce_lr_after_epoch no_hook
       [([Fin 1.0], ()), ([Fin 1.0], ())]
       (reduce_lr_init ''valid_loss'' None (Fin 0) 1 factor0,
        fresh_learner [''train_loss'', ''valid_loss''] [\<lparr>lr = Fin 0.1\<rparr>, \<lparr>lr = Fin 0.1\<rparr>] ())"

section \<open>Basic facts about the model\<close>

lemma startswith_iff: "startswith s p \<longleftrightarrow> (\<exists>b. s = p @ b)"
  by (induction s p rule: startswith.induct) auto

lemma str_contains_iff: "str_contains s p \<longleftrightarrow> (\<exists>a b. s = a @ p @ b)"
proof (induction s)
  case Nil
  show ?case by (simp add: startswith_iff)
next
  case (Cons c cs)
  show ?case
  proof
    assume "str_contains (c # cs) p"
    then consider "startswith (c # cs) p" | "str_contains cs p" by auto
    then show "\<exists>a b. c # cs = a @ p @ b"
    proof cases
      case 1
      then obtain b where "c # cs = p @ b" by (auto simp: startswith_iff)
      then have "c # cs = [] @ p @ b" by simp
      then show ?thesis by blast
    next
      case 2
      then obtain a b where "cs = a @ p @ b" using Cons.IH by blast
      then have "c # cs = (c # a) @ p @ b" by simp
      then show ?thesis by blast
    qed
  next
    assume "\<exists>a b. c # cs = a @ p @ b"
    then obtain a b where ab: "c # cs = a @ p @ b" by blast
    show "str_contains (c # cs) p"
    proof (cases a)
      case Nil
      with ab have "startswith (c # cs) p" by (auto simp: startswith_iff)
      then show ?thesis by simp
    next
      case (Cons a0 as)
      with ab have "cs = as @ p @ b" by simp
      then have "str_contains cs p" using Cons.IH by blast
      then show ?thesis by simp
    qed
  qed
qed

lemma tracker_init_fields:
  "monitor (tracker_init m c d) = m"
  "comp_op (tracker_init m c d) =
     (case c of None \<Rightarrow> if str_contains m ''loss'' then NpLess else NpGreater | Some c0 \<Rightarrow> c0)"
  "min_delta (tracker_init m c d) =
     (if is_np_less (comp_op (tracker_init m c d)) then fneg d else d)"
  "best (tracker_init m c d) = None"
  "idx (tracker_init m c d) = None"
  "new_best (tracker_init m c d) = None"
  by (simp_all add: tracker_init_def Let_def)

lemma tracker_after_epoch_read:
  assumes "last_value l (idx s) = Inr val" and "best s = Some b"
  shows "tracker_after_epoch (s, l) =
           (if call_comp (comp_op s) (fsub val (min_delta s)) b
            then ((s\<lparr>best := Some val, new_best := Some True\<rparr>, l), None)
            else ((s\<lparr>new_best := Some False\<rparr>, l), None))"
  using assms by (simp add: tracker_after_epoch_def)

lemma tracker_begin_fit_best:
  "best (fst (fst (tracker_begin_fit (s, l)))) =
     Some (if is_np_less (comp_op s) then PosInf else NegInf)"
  by (simp add: tracker_begin_fit_def Let_def split: option.split)

lemmas example_defs =
  fit_def epoch_end_def no_hook_def tracker_begin_fit_def tracker_after_epoch_def
  tracker_init_def last_value_def fresh_learner_def print_msg_def learn_save_def
  learn_load_def is_file_def pth_def tracker.defs Let_def

lemma str_int_digits:
  "str_int 0 = ''0''" "str_int 1 = ''1''" "str_int 2 = ''2''" "str_int 3 = ''3''"
  by (simp_all add: str_int_def str_nat.simps digit_char_def)


lemma fit_start_error:
  assumes "fit_start st = (st1, Some e)"
  shows "fit fit_start epoch_hook fit_end eps st = (st1, [], Some e)"
  using assms by (simp add: fit_def)

subsection \<open>The exceptions a hook can raise\<close>

lemma last_value_exn: "last_value l i \<noteq> Inl AssertionError" "last_value l i \<noteq> Inl CancelFitException"
  by (simp_all add: last_value_def split: option.split)

lemma tracker_after_epoch_exn:
  "snd (tracker_after_epoch st) \<noteq> Some AssertionError"
  "snd (tracker_after_epoch st) \<noteq> Some CancelFitException"
proof -
  obtain s l where st: "st = (s, l)" by (cases st)
  show "snd (tracker_after_epoch st) \<noteq> Some AssertionError"
    using last_value_exn(1) [of l "idx s"]
    by (cases "last_value l (idx s)")
       (auto simp: st tracker_after_epoch_def split: option.split)
  show "snd (tracker_after_epoch st) \<noteq> Some CancelFitException"
    using last_value_exn(2) [of l "idx s"]
    by (cases "last_value l (idx s)")
       (auto simp: st tracker_after_epoch_def split: option.split)
qed

lemma early_stopping_after_epoch_exn:
  "snd (early_stopping_after_epoch st) \<noteq> Some AssertionError"
proof -
  obtain s l where st: "st = (s, l)" by (cases st)
  obtain s1 l1 r where t: "tracker_after_epoch (s, l) = ((s1, l1), r)"
    by (metis prod.exhaust)
  have "r \<noteq> Some AssertionError"
    using tracker_after_epoch_exn(1) [of "(s, l)"] t by simp
  then show ?thesis
    by (auto simp: st t early_stopping_after_epoch_def Let_def
             split: option.split bool.split)
qed

lemma save_model_after_epoch_exn:
  "snd (save_model_after_epoch st) \<noteq> Some AssertionError"
  "snd (save_model_after_epoch st) \<noteq> Some CancelFitException"
proof -
  obtain s l where st: "st = (s, l)" by (cases st)
  obtain s1 l1 r where t: "tracker_after_epoch (s, l) = ((s1, l1), r)"
    by (metis prod.exhaust)
  have "r \<noteq> Some AssertionError" "r \<noteq> Some CancelFitException"
    using tracker_after_epoch_exn [of "(s, l)"] t by simp_all
  then show "snd (save_model_after_epoch st) \<noteq> Some AssertionError"
    "snd (save_model_after_epoch st) \<noteq> Some CancelFitException"
    by (auto simp: st t save_model_after_epoch_def split: option.split bool.split)
qed

lemma divide_lrs_exn:
  "snd (divide_lrs f hs) \<noteq> Some AssertionError"
  "snd (divide_lrs f hs) \<noteq> Some CancelFitException"
proof -
  have d: "fdiv a f \<noteq> Inl AssertionError \<and> fdiv a f \<noteq> Inl CancelFitException" for a
    by (cases "(a, f)" rule: fdiv.cases) (auto split: pyfloat.split)
  show "snd (divide_lrs f hs) \<noteq> Some AssertionError"
    using d by (induction hs) (auto split: sum.split prod.split)
  show "snd (divide_lrs f hs) \<noteq> Some CancelFitException"
    using d by (induction hs) (auto split: sum.split prod.split)
qed

lemma reduce_lr_after_epoch_exn:
  "snd (reduce_lr_after_epoch st) \<noteq> Some AssertionError"
  "snd (reduce_lr_after_epoch st) \<noteq> Some CancelFitException"
proof -
  obtain s l where st: "st = (s, l)" by (cases st)
  obtain s1 l1 r where t: "tracker_after_epoch (s, l) = ((s1, l1), r)"
    by (metis prod.exhaust)
  have r: "r \<noteq> Some AssertionError" "r \<noteq> Some CancelFitException"
    using tracker_after_epoch_exn [of "(s, l)"] t by simp_all
  obtain hs r2 where dl: "divide_lrs (factor s1) (hypers l1) = (hs, r2)"
    by (metis prod.exhaust)
  have d: "r2 \<noteq> Some AssertionError" "r2 \<noteq> Some CancelFitException"
    using divide_lrs_exn [of "factor s1" "hypers l1"] dl by simp_all
  show "snd (reduce_lr_after_epoch st) \<noteq> Some AssertionError"
    using r(1) d(1)
    by (auto simp: st t dl reduce_lr_after_epoch_def Let_def
             split: option.split bool.split)
  show "snd (reduce_lr_after_epoch st) \<noteq> Some CancelFitException"
    using r(2) d(2)
    by (auto simp: st t dl reduce_lr_after_epoch_def Let_def
             split: option.split bool.split)
qed

subsection \<open>The hooks on a tracker that can read its value\<close>

lemma tracker_begin_fit_missing:
  assumes "monitor s \<notin> set (drop 1 (metric_names l))"
  shows "tracker_begin_fit (s, l) =
     ((s\<lparr>best := Some (if is_np_less (comp_op s) then PosInf else NegInf)\<rparr>, l),
      Some AssertionError)"
  using assms by (simp add: tracker_begin_fit_def Let_def)

lemma list_index_first:
  assumes "x \<in> set xs"
  shows "\<exists>i. list_index xs x = Some i \<and> i < length xs \<and> xs ! i = x \<and> x \<notin> set (take i xs)"
  using assms
proof (induction xs)
  case Nil
  then show ?case by simp
next
  case (Cons y ys)
  show ?case
  proof (cases "y = x")
    case True
    then show ?thesis by simp
  next
    case False
    with Cons.prems have "x \<in> set ys" by simp
    from Cons.IH [OF this] obtain i
      where "list_index ys x = Some i" "i < length ys" "ys ! i = x" "x \<notin> set (take i ys)"
      by blast
    with False have "list_index (y # ys) x = Some (Suc i) \<and> Suc i < length (y # ys)
        \<and> (y # ys) ! Suc i = x \<and> x \<notin> set (take (Suc i) (y # ys))"
      by auto
    then show ?thesis by blast
  qed
qed

lemma tracker_begin_fit_found:
  assumes "monitor s \<in> set (drop 1 (metric_names l))"
  shows "\<exists>i. tracker_begin_fit (s, l) =
              ((s\<lparr>best := Some (if is_np_less (comp_op s) then PosInf else NegInf),
                  idx := Some i\<rparr>, l), None)
           \<and> i < length (drop 1 (metric_names l))
           \<and> drop 1 (metric_names l) ! i = monitor s
           \<and> monitor s \<notin> set (take i (drop 1 (metric_names l)))"
proof -
  from list_index_first [OF assms] obtain i
    where i: "list_index (drop 1 (metric_names l)) (monitor s) = Some i"
      "i < length (drop 1 (metric_names l))" "drop 1 (metric_names l) ! i = monitor s"
      "monitor s \<notin> set (take i (drop 1 (metric_names l)))"
    by blast
  have "tracker_begin_fit (s, l) =
          ((s\<lparr>best := Some (if is_np_less (comp_op s) then PosInf else NegInf),
              idx := Some i\<rparr>, l), None)"
    using assms i(1) by (simp add: tracker_begin_fit_def Let_def)
  with i(2-4) show ?thesis by blast
qed

lemma last_value_row:
  assumes "rec_values l \<noteq> []" and "k < length (last (rec_values l))"
  shows "last_value l (Some k) = Inr (last (rec_values l) ! k)"
  using assms by (simp add: last_value_def)



lemma terminate_on_nan_hook:
  "terminate_on_nan_after_batch (s, l) =
     ((s, l), if isinf (loss l) \<or> isnan (loss l) then Some CancelFitException else None)"
  by (simp add: terminate_on_nan_after_batch_def)

lemma terminate_on_nan_run:
  assumes "\<forall>x \<in> set xs. \<not> isinf x \<and> \<not> isnan x" and "isinf y \<or> isnan y"
  shows "run_hooks (batch_end terminate_on_nan_after_batch) (xs @ y # ys) (s, l) =
           (map (\<lambda>x. (s, l\<lparr>loss := x\<rparr>)) (xs @ [y]), Some CancelFitException)"
  using assms
proof (induction xs arbitrary: l)
  case Nil
  then show ?case by (auto simp: batch_end_def terminate_on_nan_hook)
next
  case (Cons x xs)
  from Cons.prems have fin: "\<not> isinf x \<and> \<not> isnan x"
    and rest: "\<forall>x \<in> set xs. \<not> isinf x \<and> \<not> isnan x" by simp_all
  have step: "batch_end terminate_on_nan_after_batch x (s, l) = ((s, l\<lparr>loss := x\<rparr>), None)"
    using fin by (simp add: batch_end_def terminate_on_nan_hook)
  have "run_hooks (batch_end terminate_on_nan_after_batch) (xs @ y # ys) (s, l\<lparr>loss := x\<rparr>) =
          (map (\<lambda>x'. (s, l\<lparr>loss := x'\<rparr>)) (xs @ [y]), Some CancelFitException)"
    using Cons.IH [OF rest Cons.prems(2), of "l\<lparr>loss := x\<rparr>"] by simp
  with step show ?case by simp
qed

lemma early_stopping_after_epoch_read:
  assumes "last_value l (idx s) = Inr val" and "best s = Some b"
  shows "early_stopping_after_epoch (s, l) =
     (if call_comp (comp_op s) (fsub val (min_delta s)) b
      then ((s\<lparr>best := Some val, new_best := Some True, early_stopping.wait := Some 0\<rparr>, l), None)
      else case early_stopping.wait s of
             None \<Rightarrow> ((s\<lparr>new_best := Some False\<rparr>, l), Some AttributeError)
           | Some w \<Rightarrow>
               if early_stopping.patience s \<le> w + 1
               then ((s\<lparr>new_best := Some False, early_stopping.wait := Some (w + 1)\<rparr>,
                      print_msg (NoImprovementSince (epoch l - (w + 1))) l),
                     Some CancelFitException)
               else ((s\<lparr>new_best := Some False, early_stopping.wait := Some (w + 1)\<rparr>, l),
                     None))"
  using assms
  by (simp add: early_stopping_after_epoch_def tracker_after_epoch_read Let_def
           split: option.split)

lemma save_model_after_epoch_every:
  "every_epoch s \<Longrightarrow> save_model_after_epoch (s, l) =
     ((s, learn_save (fname s @ ''_'' @ str_int (epoch l)) l), None)"
  by (simp add: save_model_after_epoch_def)

lemma save_model_after_epoch_read:
  assumes "\<not> every_epoch s" and "last_value l (idx s) = Inr val" and "best s = Some b"
  shows "save_model_after_epoch (s, l) =
     (if call_comp (comp_op s) (fsub val (min_delta s)) b
      then ((s\<lparr>best := Some val, new_best := Some True\<rparr>, learn_save (fname s) l), None)
      else ((s\<lparr>new_best := Some False\<rparr>, l), None))"
  using assms by (simp add: save_model_after_epoch_def tracker_after_epoch_read)


lemma divide_lrs_nonzero:
  assumes "f \<noteq> Fin 0"
  shows "snd (divide_lrs f hs) = None
       \<and> map (\<lambda>h. Inr (lr h)) (fst (divide_lrs f hs)) = map (\<lambda>h. fdiv (lr h) f) hs"
proof (induction hs)
  case Nil
  show ?case by simp
next
  case (Cons h hs)
  have "\<exists>v. fdiv (lr h) f = Inr v"
    using assms by (cases "(lr h, f)" rule: fdiv.cases) (auto split: pyfloat.split)
  then obtain v where v: "fdiv (lr h) f = Inr v" by blast
  with Cons.IH show ?case by (cases "divide_lrs f hs") simp
qed

lemma divide_lrs_zero:
  "divide_lrs (Fin 0) hs = (hs, if hs = [] then None else Some ZeroDivisionError)"
  by (cases hs) simp_all

lemma reduce_lr_after_epoch_read:
  assumes "last_value l (idx s) = Inr val" and "best s = Some b"
  shows "reduce_lr_after_epoch (s, l) =
     (if call_comp (comp_op s) (fsub val (min_delta s)) b
      then ((s\<lparr>best := Some val, new_best := Some True, reduce_lr.wait := Some 0\<rparr>, l), None)
      else case reduce_lr.wait s of
             None \<Rightarrow> ((s\<lparr>new_best := Some False\<rparr>, l), Some AttributeError)
           | Some w \<Rightarrow>
               if reduce_lr.patience s \<le> w + 1
               then (case divide_lrs (factor s) (hypers l) of
                       (hs, Some e) \<Rightarrow>
                         ((s\<lparr>new_best := Some False, reduce_lr.wait := Some (w + 1)\<rparr>,
                           l\<lparr>hypers := hs\<rparr>), Some e)
                     | (hs, None) \<Rightarrow>
                         if hs = []
                         then ((s\<lparr>new_best := Some False, reduce_lr.wait := Some 0\<rparr>,
                                l\<lparr>hypers := hs\<rparr>), Some IndexError)
                         else ((s\<lparr>new_best := Some False, reduce_lr.wait := Some 0\<rparr>,
                                print_msg (ReducingLr (epoch l) (lr (last hs))) (l\<lparr>hypers := hs\<rparr>)),
                               None))
               else ((s\<lparr>new_best := Some False, reduce_lr.wait := Some (w + 1)\<rparr>, l), None))"
  using assms
  by (simp add: reduce_lr_after_epoch_def tracker_after_epoch_read Let_def
           split: option.split prod.split)

lemma reduce_lr_triggered:
  assumes "last_value l (idx s) = Inr val" and "best s = Some b"
    and "reduce_lr.wait s = Some w"
    and "\<not> call_comp (comp_op s) (fsub val (min_delta s)) b"
    and "reduce_lr.patience s \<le> w + 1"
    and "factor s \<noteq> Fin 0"
  shows "fst (fst (reduce_lr_after_epoch (s, l))) =
           s\<lparr>new_best := Some False, reduce_lr.wait := Some 0\<rparr>"
    and "map (\<lambda>h. Inr (lr h)) (hypers (snd (fst (reduce_lr_after_epoch (s, l))))) =
           map (\<lambda>h. fdiv (lr h) (factor s)) (hypers l)"
    and "snd (reduce_lr_after_epoch (s, l)) = (if hypers l = [] then Some IndexError else None)"
proof -
  obtain hs r where dl: "divide_lrs (factor s) (hypers l) = (hs, r)"
    by (metis prod.exhaust)
  from divide_lrs_nonzero [OF assms(6), of "hypers l"] dl
  have r: "r = None" and hs: "map (\<lambda>h. Inr (lr h)) hs = map (\<lambda>h. fdiv (lr h) (factor s)) (hypers l)"
    by simp_all
  from hs have len: "length hs = length (hypers l)"
    by (metis length_map)
  have e: "(hs = []) = (hypers l = [])"
    using len by (metis length_0_conv)
  have eq: "reduce_lr_after_epoch (s, l) =
     (if hs = []
      then ((s\<lparr>new_best := Some False, reduce_lr.wait := Some 0\<rparr>, l\<lparr>hypers := hs\<rparr>),
            Some IndexError)
      else ((s\<lparr>new_best := Some False, reduce_lr.wait := Some 0\<rparr>,
             print_msg (ReducingLr (epoch l) (lr (last hs))) (l\<lparr>hypers := hs\<rparr>)), None))"
    using assms(3-5) dl r
    by (simp add: reduce_lr_after_epoch_read [OF assms(1,2)])
  show "fst (fst (reduce_lr_after_epoch (s, l))) =
           s\<lparr>new_best := Some False, reduce_lr.wait := Some 0\<rparr>"
    by (simp add: eq)
  show "map (\<lambda>h. Inr (lr h)) (hypers (snd (fst (reduce_lr_after_epoch (s, l))))) =
           map (\<lambda>h. fdiv (lr h) (factor s)) (hypers l)"
  proof -
    have "hypers (snd (fst (reduce_lr_after_epoch (s, l)))) = hs"
      by (simp add: eq print_msg_def)
    with hs show ?thesis by simp
  qed
  show "snd (reduce_lr_after_epoch (s, l)) = (if hypers l = [] then Some IndexError else None)"
    using e by (simp add: eq)
qed

text \<open>With factor 0 the first division raises, whatever the rates are.\<close>

lemma reduce_lr_zero_factor:
  assumes "last_value l (idx s) = Inr val" and "best s = Some b"
    and "reduce_lr.wait s = Some w"
    and "\<not> call_comp (comp_op s) (fsub val (min_delta s)) b"
    and "reduce_lr.patience s \<le> w + 1"
    and "factor s = Fin 0" and "hypers l \<noteq> []"
  shows "reduce_lr_after_epoch (s, l) =
           ((s\<lparr>new_best := Some False, reduce_lr.wait := Some (w + 1)\<rparr>, l),
            Some ZeroDivisionError)"
  using assms(3-7)
  by (simp add: reduce_lr_after_epoch_read [OF assms(1,2)] divide_lrs_zero)

subsection \<open>Checkpoints along a fit\<close>





subsection \<open>The example fits, evaluated\<close>

lemma early_stopping_example_run:
  "map (\<lambda>st. (best (fst st), early_stopping.wait (fst st))) (fst (snd early_stopping_example)) =
     [(Some (Fin 1.0), Some 0), (Some (Fin 0.9), Some 0), (Some (Fin 0.9), Some 1), (Some (Fin 0.9), Some 2)]
   \<and> snd (snd early_stopping_example) = Some CancelFitException
   \<and> events (snd (fst early_stopping_example)) = [Printed (NoImprovementSince 1)]"
  by (simp add: early_stopping_example_def fit_def epoch_end_def no_hook_def
      early_stopping_begin_fit_def early_stopping_after_epoch_def early_stopping_init_def
      tracker_begin_fit_def tracker_after_epoch_def tracker_init_def last_value_def
      fresh_learner_def print_msg_def tracker.defs early_stopping.defs Let_def)

lemma save_model_example_best_only:
  "map (\<lambda>st. (new_best (fst st), files (snd st) ''model.pth'', events (snd st)))
       (fst (snd (save_model_example False
          [([Fin 0.5], 1), ([Fin 0.4], 2), ([Fin 0.6], 3), ([Fin 0.3], 4)]))) =
     [(Some True, Some 1, [Saved ''model'']),
      (Some True, Some 2, [Saved ''model'', Saved ''model'']),
      (Some False, Some 2, [Saved ''model'', Saved ''model'']),
      (Some True, Some 4, [Saved ''model'', Saved ''model'', Saved ''model''])]
   \<and> snd (snd (save_model_example False
          [([Fin 0.5], 1), ([Fin 0.4], 2), ([Fin 0.6], 3), ([Fin 0.3], 4)])) = None"
  by (simp add: save_model_example_def example_defs save_model_begin_fit_def
      save_model_after_epoch_def save_model_on_train_end_def save_model_init_def
      save_model.defs)


lemma save_model_example_every_epoch:
  "map (\<lambda>st. (new_best (fst st), best (fst st), events (snd st)))
       (fst (snd (save_model_example True
          [([Fin 0.5], 1), ([Fin 0.4], 2), ([Fin 0.6], 3), ([Fin 0.3], 4)]))) =
     [(None, Some PosInf, [Saved ''model_0'']),
      (None, Some PosInf, [Saved ''model_0'', Saved ''model_1'']),
      (None, Some PosInf, [Saved ''model_0'', Saved ''model_1'', Saved ''model_2'']),
      (None, Some PosInf,
       [Saved ''model_0'', Saved ''model_1'', Saved ''model_2'', Saved ''model_3''])]
   \<and> fst (save_model_example True
          [([Fin 0.5], 1), ([Fin 0.4], 2), ([Fin 0.6], 3), ([Fin 0.3], 4)]) =
       last (fst (snd (save_model_example True
          [([Fin 0.5], 1), ([Fin 0.4], 2), ([Fin 0.6], 3), ([Fin 0.3], 4)])))
   \<and> snd (snd (save_model_example True
          [([Fin 0.5], 1), ([Fin 0.4], 2), ([Fin 0.6], 3), ([Fin 0.3], 4)])) = None"
  by (simp add: save_model_example_def example_defs save_model_begin_fit_def
      save_model_after_epoch_def save_model_on_train_end_def save_model_init_def
      save_model.defs str_int_digits)


lemma reduce_lr_example_run:
  "map (\<lambda>st. (reduce_lr.wait (fst st), hypers (snd st))) (fst (snd (reduce_lr_example (Fin 10)))) =
     [(Some 0, [\<lparr>lr = Fin 0.1\<rparr>, \<lparr>lr = Fin 0.1\<rparr>]),
      (Some 0, [\<lparr>lr = Fin 0.01\<rparr>, \<lparr>lr = Fin 0.01\<rparr>])]
   \<and> snd (snd (reduce_lr_example (Fin 10))) = None
   \<and> events (snd (fst (reduce_lr_example (Fin 10)))) = [Printed (ReducingLr 1 (Fin 0.01))]"
  by (simp add: reduce_lr_example_def example_defs reduce_lr_begin_fit_def
      reduce_lr_after_epoch_def reduce_lr_init_def reduce_lr.defs)

lemma reduce_lr_example_zero:
  "map (\<lambda>st. (reduce_lr.wait (fst st), hypers (snd st))) (fst (snd (reduce_lr_example (Fin 0)))) =
     [(Some 0, [\<lparr>lr = Fin 0.1\<rparr>, \<lparr>lr = Fin 0.1\<rparr>]),
      (Some 1, [\<lparr>lr = Fin 0.1\<rparr>, \<lparr>lr = Fin 0.1\<rparr>])]
   \<and> snd (snd (reduce_lr_example (Fin 0))) = Some ZeroDivisionError"
  by (simp add: reduce_lr_example_def example_defs reduce_lr_begin_fit_def
      reduce_lr_after_epoch_def reduce_lr_init_def reduce_lr.defs)
section \<open>The tracker\<close>

text \<open>
  Claim C1. At fit start \<^verbatim>\<open>begin_fit\<close> sets \<^verbatim>\<open>best\<close> to \<open>+infinity\<close> when the comparator
  is \<^verbatim>\<open>np.less\<close> and to \<open>-infinity\<close> otherwise, on every tracker and learner (also when
  the assertion then fails); when the monitor is among the metric names after the first,
  it sets \<^verbatim>\<open>idx\<close> to the first position of the monitor there, changes nothing else and
  raises nothing. An epoch update of \<^verbatim>\<open>TrackerCallback\<close> reads the monitored value, entry
  \<^verbatim>\<open>idx\<close> of the recorder's last row: if the comparison \<^verbatim>\<open>comp(val - min_delta, best)\<close>
  holds, the hook sets \<^verbatim>\<open>best\<close> to that value and \<^verbatim>\<open>new_best\<close> to true; if not, it sets
  \<^verbatim>\<open>new_best\<close> to false and leaves \<^verbatim>\<open>best\<close> as it was. Nothing else of the callback or
  the learner changes and nothing is raised.
\<close>

theorem tracker_update:
  "best (fst (fst (tracker_begin_fit (s, l)))) =
     Some (if is_np_less (comp_op s) then PosInf else NegInf)
   \<and> (monitor s \<in> set (drop 1 (metric_names l)) \<longrightarrow>
        (\<exists>i. tracker_begin_fit (s, l) =
                ((s\<lparr>best := Some (if is_np_less (comp_op s) then PosInf else NegInf),
                    idx := Some i\<rparr>, l), None)
             \<and> i < length (drop 1 (metric_names l))
             \<and> drop 1 (metric_names l) ! i = monitor s
             \<and> monitor s \<notin> set (take i (drop 1 (metric_names l)))))
   \<and> (rec_values l \<noteq> [] \<and> idx s = Some k \<and> k < length (last (rec_values l))
       \<and> best s = Some b
       \<and> call_comp (comp_op s) (fsub (last (rec_values l) ! k) (min_delta s)) b \<longrightarrow>
        tracker_after_epoch (s, l) =
          ((s\<lparr>best := Some (last (rec_values l) ! k), new_best := Some True\<rparr>, l), None))
   \<and> (rec_values l \<noteq> [] \<and> idx s = Some k \<and> k < length (last (rec_values l))
       \<and> best s = Some b
       \<and> \<not> call_comp (comp_op s) (fsub (last (rec_values l) ! k) (min_delta s)) b \<longrightarrow>
        tracker_after_epoch (s, l) = ((s\<lparr>new_best := Some False\<rparr>, l), None))"
proof -
  have a: "best (fst (fst (tracker_begin_fit (s, l)))) =
     Some (if is_np_less (comp_op s) then PosInf else NegInf)"
    by (rule tracker_begin_fit_best)
  have b: "monitor s \<in> set (drop 1 (metric_names l)) \<longrightarrow>
        (\<exists>i. tracker_begin_fit (s, l) =
                ((s\<lparr>best := Some (if is_np_less (comp_op s) then PosInf else NegInf),
                    idx := Some i\<rparr>, l), None)
             \<and> i < length (drop 1 (metric_names l))
             \<and> drop 1 (metric_names l) ! i = monitor s
             \<and> monitor s \<notin> set (take i (drop 1 (metric_names l))))"
    using tracker_begin_fit_found [of s l] by blast
  have c: "rec_values l \<noteq> [] \<and> idx s = Some k \<and> k < length (last (rec_values l))
       \<and> best s = Some b \<longrightarrow>
        tracker_after_epoch (s, l) =
          (if call_comp (comp_op s) (fsub (last (rec_values l) ! k) (min_delta s)) b
           then ((s\<lparr>best := Some (last (rec_values l) ! k), new_best := Some True\<rparr>, l), None)
           else ((s\<lparr>new_best := Some False\<rparr>, l), None))"
  proof (intro impI, elim conjE)
    assume h: "rec_values l \<noteq> []" "idx s = Some k" "k < length (last (rec_values l))"
      "best s = Some b"
    from last_value_row [OF h(1,3)] h(2)
    have "last_value l (idx s) = Inr (last (rec_values l) ! k)" by simp
    from tracker_after_epoch_read [OF this h(4)] show "tracker_after_epoch (s, l) =
          (if call_comp (comp_op s) (fsub (last (rec_values l) ! k) (min_delta s)) b
           then ((s\<lparr>best := Some (last (rec_values l) ! k), new_best := Some True\<rparr>, l), None)
           else ((s\<lparr>new_best := Some False\<rparr>, l), None))" .
  qed
  from c have c1: "rec_values l \<noteq> [] \<and> idx s = Some k \<and> k < length (last (rec_values l))
       \<and> best s = Some b
       \<and> call_comp (comp_op s) (fsub (last (rec_values l) ! k) (min_delta s)) b \<longrightarrow>
        tracker_after_epoch (s, l) =
          ((s\<lparr>best := Some (last (rec_values l) ! k), new_best := Some True\<rparr>, l), None)"
    by simp
  from c have c2: "rec_values l \<noteq> [] \<and> idx s = Some k \<and> k < length (last (rec_values l))
       \<and> best s = Some b
       \<and> \<not> call_comp (comp_op s) (fsub (last (rec_values l) ! k) (min_delta s)) b \<longrightarrow>
        tracker_after_epoch (s, l) = ((s\<lparr>new_best := Some False\<rparr>, l), None)"
    by simp
  show ?thesis
    by (intro conjI) (rule a b c1 c2)+
qed

theorem tracker_update_witness:
  "tracker_begin_fit
     (tracker_init ''accuracy'' None (Fin 0),
      fresh_learner [''train_loss'', ''valid_loss'', ''accuracy''] [] ()) =
   (((tracker_init ''accuracy'' None (Fin 0))\<lparr>best := Some NegInf, idx := Some 1\<rparr>,
     fresh_learner [''train_loss'', ''valid_loss'', ''accuracy''] [] ()), None)
   \<and> tracker_after_epoch
     ((tracker_init ''accuracy'' None (Fin 0))\<lparr>best := Some NegInf, idx := Some 1\<rparr>,
      (fresh_learner [''train_loss'', ''valid_loss'', ''accuracy''] [] ())
        \<lparr>rec_values := [[Fin 0.5, Fin 0.8]]\<rparr>) =
   (((tracker_init ''accuracy'' None (Fin 0))
        \<lparr>best := Some (Fin 0.8), idx := Some 1, new_best := Some True\<rparr>,
     (fresh_learner [''train_loss'', ''valid_loss'', ''accuracy''] [] ())
        \<lparr>rec_values := [[Fin 0.5, Fin 0.8]]\<rparr>), None)
   \<and> tracker_after_epoch
     ((tracker_init ''accuracy'' None (Fin 0))
        \<lparr>best := Some (Fin 0.8), idx := Some 1, new_best := Some True\<rparr>,
      (fresh_learner [''train_loss'', ''valid_loss'', ''accuracy''] [] ())
        \<lparr>rec_values := [[Fin 0.5, Fin 0.8], [Fin 0.4, Fin 0.7]]\<rparr>) =
   (((tracker_init ''accuracy'' None (Fin 0))
        \<lparr>best := Some (Fin 0.8), idx := Some 1, new_best := Some False\<rparr>,
     (fresh_learner [''train_loss'', ''valid_loss'', ''accuracy''] [] ())
        \<lparr>rec_values := [[Fin 0.5, Fin 0.8], [Fin 0.4, Fin 0.7]]\<rparr>), None)"
proof -
  let ?t = "tracker_init ''accuracy'' None (Fin 0)"
  let ?l = "fresh_learner [''train_loss'', ''valid_loss'', ''accuracy''] [] ()"
  let ?s1 = "?t\<lparr>best := Some NegInf, idx := Some 1\<rparr>"
  let ?l1 = "?l\<lparr>rec_values := [[Fin 0.5, Fin 0.8]]\<rparr>"
  let ?s2 = "?t\<lparr>best := Some (Fin 0.8), idx := Some 1, new_best := Some True\<rparr>"
  let ?l2 = "?l\<lparr>rec_values := [[Fin 0.5, Fin 0.8], [Fin 0.4, Fin 0.7]]\<rparr>"
  have cfg: "monitor ?t = ''accuracy''" "comp_op ?t = NpGreater" "min_delta ?t = Fin 0"
    by (simp_all add: tracker_init_fields)
  have "monitor ?t \<in> set (drop 1 (metric_names ?l))"
    by (simp add: cfg fresh_learner_def)
  with tracker_update [where s = ?t and l = ?l]
  obtain i where i: "tracker_begin_fit (?t, ?l) =
          ((?t\<lparr>best := Some (if is_np_less (comp_op ?t) then PosInf else NegInf),
               idx := Some i\<rparr>, ?l), None)"
      "i < length (drop 1 (metric_names ?l))" "drop 1 (metric_names ?l) ! i = monitor ?t"
    by blast
  from i(2,3) have "i = 1"
    by (cases i) (simp_all add: fresh_learner_def cfg)
  with i(1) have a: "tracker_begin_fit (?t, ?l) = ((?s1, ?l), None)"
    by (simp add: cfg)
  have h1: "rec_values ?l1 \<noteq> [] \<and> idx ?s1 = Some 1 \<and> 1 < length (last (rec_values ?l1))
       \<and> best ?s1 = Some NegInf
       \<and> call_comp (comp_op ?s1) (fsub (last (rec_values ?l1) ! 1) (min_delta ?s1)) NegInf"
    by (simp add: cfg)
  with tracker_update [where s = ?s1 and l = ?l1 and k = 1 and b = NegInf]
  have b: "tracker_after_epoch (?s1, ?l1) =
      ((?s1\<lparr>best := Some (last (rec_values ?l1) ! 1), new_best := Some True\<rparr>, ?l1), None)"
    by blast
  have h2: "rec_values ?l2 \<noteq> [] \<and> idx ?s2 = Some 1 \<and> 1 < length (last (rec_values ?l2))
       \<and> best ?s2 = Some (Fin 0.8)
       \<and> \<not> call_comp (comp_op ?s2) (fsub (last (rec_values ?l2) ! 1) (min_delta ?s2)) (Fin 0.8)"
    by (simp add: cfg)
  with tracker_update [where s = ?s2 and l = ?l2 and k = 1 and b = "Fin 0.8"]
  have c: "tracker_after_epoch (?s2, ?l2) = ((?s2\<lparr>new_best := Some False\<rparr>, ?l2), None)"
    by blast
  show ?thesis
    unfolding a b c by simp
qed

text \<open>
  Claim C2. For every monitored value \<open>val\<close>, stored best \<open>b\<close> and \<^verbatim>\<open>min_delta\<close> \<open>d\<close> given
  to the constructor: the tolerance the tracker stores is the negation of \<open>d\<close> when the
  comparator is \<^verbatim>\<open>np.less\<close> and \<open>d\<close> itself otherwise, and the epoch update declares an
  improvement exactly when \<^verbatim>\<open>comp(val - stored tolerance, best)\<close> holds: one formula for
  both directions. The tracker \<open>s\<close> is any state of a tracker the constructor made (the
  hooks assign \<^verbatim>\<open>best\<close>, \<^verbatim>\<open>idx\<close> and \<^verbatim>\<open>new_best\<close> only).
\<close>

theorem tracker_improvement_test:
  assumes "s = (tracker_init m c d)\<lparr>best := Some b, idx := i, new_best := nb\<rparr>"
    and "last_value l i = Inr val"
  shows "min_delta s = (if is_np_less (comp_op s) then fneg d else d)
       \<and> new_best (fst (fst (tracker_after_epoch (s, l)))) =
           Some (call_comp (comp_op s)
                   (fsub val (if is_np_less (comp_op s) then fneg d else d)) b)"
proof -
  have md: "min_delta s = (if is_np_less (comp_op s) then fneg d else d)"
    using assms(1) by (simp add: tracker_init_fields)
  have "last_value l (idx s) = Inr val" and "best s = Some b"
    using assms by simp_all
  then have "new_best (fst (fst (tracker_after_epoch (s, l)))) =
               Some (call_comp (comp_op s) (fsub val (min_delta s)) b)"
    by (simp add: tracker_after_epoch_read)
  with md show ?thesis by simp
qed

theorem tracker_improvement_test_witness:
  "new_best (fst (fst (tracker_after_epoch
      ((tracker_init ''valid_loss'' None (Fin 0.1))\<lparr>best := Some (Fin 1), idx := Some 0, new_best := None\<rparr>,
       (fresh_learner [''train_loss'', ''valid_loss''] [] ())\<lparr>rec_values := [[Fin 0.95]]\<rparr>)))) = Some False
   \<and> new_best (fst (fst (tracker_after_epoch
      ((tracker_init ''valid_loss'' None (Fin 0.1))\<lparr>best := Some (Fin 1), idx := Some 0, new_best := None\<rparr>,
       (fresh_learner [''train_loss'', ''valid_loss''] [] ())\<lparr>rec_values := [[Fin 0.85]]\<rparr>)))) = Some True"
proof -
  let ?s = "(tracker_init ''valid_loss'' None (Fin 0.1))\<lparr>best := Some (Fin 1), idx := Some 0, new_best := None\<rparr>"
  let ?l1 = "(fresh_learner [''train_loss'', ''valid_loss''] [] ())\<lparr>rec_values := [[Fin 0.95]]\<rparr>"
  let ?l2 = "(fresh_learner [''train_loss'', ''valid_loss''] [] ())\<lparr>rec_values := [[Fin 0.85]]\<rparr>"
  have v1: "last_value ?l1 (Some 0) = Inr (Fin 0.95)"
    by (simp add: last_value_def fresh_learner_def)
  have v2: "last_value ?l2 (Some 0) = Inr (Fin 0.85)"
    by (simp add: last_value_def fresh_learner_def)
  from tracker_improvement_test [OF refl v1, where m = "''valid_loss''" and c = None]
       tracker_improvement_test [OF refl v2, where m = "''valid_loss''" and c = None]
  show ?thesis by (simp add: tracker_init_fields)
qed

text \<open>
  Claim C9. When the caller gives no comparator, the constructor takes \<^verbatim>\<open>np.less\<close> if and
  only if \<^verbatim>\<open>loss\<close> occurs in the monitor name as a substring, compared character by
  character (so case-sensitive), and \<^verbatim>\<open>np.greater\<close> otherwise.
\<close>

theorem default_comparator:
  "comp_op (tracker_init m None d) =
     (if (\<exists>a b. m = a @ ''loss'' @ b) then NpLess else NpGreater)"
  by (simp add: tracker_init_fields str_contains_iff)

theorem default_comparator_witness:
  "comp_op (tracker_init ''valid_loss'' None (Fin 0)) = NpLess
   \<and> comp_op (tracker_init ''accuracy'' None (Fin 0)) = NpGreater
   \<and> comp_op (tracker_init ''valid_Loss'' None (Fin 0)) = NpGreater"
proof -
  have a: "\<exists>a b. ''valid_loss'' = a @ ''loss'' @ b"
    using str_contains_iff [of "''valid_loss''" "''loss''"] by simp
  have b: "\<not> (\<exists>a b. ''accuracy'' = a @ ''loss'' @ b)"
    using str_contains_iff [of "''accuracy''" "''loss''"] by simp
  have c: "\<not> (\<exists>a b. ''valid_Loss'' = a @ ''loss'' @ b)"
    using str_contains_iff [of "''valid_Loss''" "''loss''"] by simp
  from default_comparator [of "''valid_loss''" "Fin 0"]
       default_comparator [of "''accuracy''" "Fin 0"]
       default_comparator [of "''valid_Loss''" "Fin 0"] a b c
  show ?thesis by simp
qed

text \<open>
  Claim C10. For a comparator given by the caller that is not the object \<^verbatim>\<open>np.less\<close>
  (another callable that computes less-than, say), the constructor does not negate
  \<^verbatim>\<open>min_delta\<close> and the fit start sets \<^verbatim>\<open>best\<close> to \<open>-infinity\<close>: both tests compare the
  comparator with \<^verbatim>\<open>np.less\<close> itself.
\<close>

theorem foreign_comparator_counts_as_max:
  assumes "c \<noteq> NpLess"
  shows "min_delta (tracker_init m (Some c) d) = d
       \<and> best (fst (fst (tracker_begin_fit (tracker_init m (Some c) d, l)))) = Some NegInf"
proof -
  have "\<not> is_np_less c" using assms by (cases c) simp_all
  then show ?thesis
    by (simp add: tracker_init_fields tracker_begin_fit_best)
qed

theorem foreign_comparator_counts_as_max_witness:
  "min_delta (tracker_init ''valid_loss'' (Some (Custom np_less)) (Fin 0.1)) = Fin 0.1
   \<and> best (fst (fst (tracker_begin_fit
        (tracker_init ''valid_loss'' (Some (Custom np_less)) (Fin 0.1),
         fresh_learner [''train_loss'', ''valid_loss''] [] ())))) = Some NegInf"
  using foreign_comparator_counts_as_max [of "Custom np_less"] by simp
text \<open>
  Claim C8. For every tracker-based policy (\<^verbatim>\<open>TrackerCallback\<close> and its three
  subclasses): if the configured monitor name is not among the recorder's metric names
  after the first column, \<^verbatim>\<open>begin_fit\<close> raises \<^verbatim>\<open>AssertionError\<close>; a fit then ends with
  that error before any epoch-end hook has run; and no epoch-end hook of these policies
  ever raises \<^verbatim>\<open>AssertionError\<close>, in any state.
\<close>

theorem missing_monitor_fails_at_fit_start:
  assumes "m \<notin> set (drop 1 (metric_names l))"
    and "monitor t = m" and "monitor es = m" and "monitor sm = m" and "monitor rl = m"
  shows "snd (tracker_begin_fit (t, l)) = Some AssertionError
       \<and> snd (early_stopping_begin_fit (es, l)) = Some AssertionError
       \<and> snd (save_model_begin_fit (sm, l)) = Some AssertionError
       \<and> snd (reduce_lr_begin_fit (rl, l)) = Some AssertionError
       \<and> snd (fit early_stopping_begin_fit early_stopping_after_epoch no_hook eps (es, l)) =
           ([], Some AssertionError)
       \<and> snd (fit save_model_begin_fit save_model_after_epoch save_model_on_train_end eps (sm, l)) =
           ([], Some AssertionError)
       \<and> snd (fit reduce_lr_begin_fit reduce_lr_after_epoch no_hook eps (rl, l)) =
           ([], Some AssertionError)
       \<and> snd (tracker_after_epoch st1) \<noteq> Some AssertionError
       \<and> snd (early_stopping_after_epoch st2) \<noteq> Some AssertionError
       \<and> snd (save_model_after_epoch st3) \<noteq> Some AssertionError
       \<and> snd (reduce_lr_after_epoch st4) \<noteq> Some AssertionError"
proof -
  have t: "snd (tracker_begin_fit (t, l)) = Some AssertionError"
    using assms(1,2) by (simp add: tracker_begin_fit_missing)
  obtain es1 where es: "early_stopping_begin_fit (es, l) = (es1, Some AssertionError)"
    using assms(1,3) by (simp add: early_stopping_begin_fit_def tracker_begin_fit_missing)
  obtain sm1 where sm: "save_model_begin_fit (sm, l) = (sm1, Some AssertionError)"
    using assms(1,4) by (simp add: save_model_begin_fit_def tracker_begin_fit_missing)
  obtain rl1 where rl: "reduce_lr_begin_fit (rl, l) = (rl1, Some AssertionError)"
    using assms(1,5) by (simp add: reduce_lr_begin_fit_def tracker_begin_fit_missing)
  show ?thesis
    using t es sm rl
    by (simp add:
          fit_start_error [where fit_start = early_stopping_begin_fit and st = "(es, l)", OF es]
          fit_start_error [where fit_start = save_model_begin_fit and st = "(sm, l)", OF sm]
          fit_start_error [where fit_start = reduce_lr_begin_fit and st = "(rl, l)", OF rl]
          tracker_after_epoch_exn(1) early_stopping_after_epoch_exn
          save_model_after_epoch_exn(1) reduce_lr_after_epoch_exn(1))
qed

theorem missing_monitor_fails_at_fit_start_witness:
  "snd (fit early_stopping_begin_fit early_stopping_after_epoch no_hook
          [([Fin 1], ()), ([Fin 2], ())]
          (early_stopping_init ''train_loss'' None (Fin 0) 1,
           fresh_learner [''train_loss'', ''valid_loss''] [] ())) = ([], Some AssertionError)
   \<and> snd (fit save_model_begin_fit save_model_after_epoch save_model_on_train_end
          [([Fin 1], ()), ([Fin 2], ())]
          (save_model_init ''train_loss'' None (Fin 0) ''model'' True,
           fresh_learner [''train_loss'', ''valid_loss''] [] ())) = ([], Some AssertionError)
   \<and> snd (fit reduce_lr_begin_fit reduce_lr_after_epoch no_hook
          [([Fin 1], ()), ([Fin 2], ())]
          (reduce_lr_init ''train_loss'' None (Fin 0) 1 (Fin 10),
           fresh_learner [''train_loss'', ''valid_loss''] [] ())) = ([], Some AssertionError)
   \<and> snd (tracker_begin_fit
          (tracker_init ''train_loss'' None (Fin 0),
           fresh_learner [''train_loss'', ''valid_loss''] [] ())) = Some AssertionError"
proof -
  let ?l = "fresh_learner [''train_loss'', ''valid_loss''] [] ()"
  have a: "''train_loss'' \<notin> set (drop 1 (metric_names ?l))"
    by (simp add: fresh_learner_def)
  have t: "monitor (tracker_init ''train_loss'' None (Fin 0)) = ''train_loss''"
    by (simp add: tracker_init_fields)
  have es: "monitor (early_stopping_init ''train_loss'' None (Fin 0) 1) = ''train_loss''"
    by (simp add: early_stopping_init_def tracker_init_def tracker.defs Let_def)
  have sm: "monitor (save_model_init ''train_loss'' None (Fin 0) ''model'' True) = ''train_loss''"
    by (simp add: save_model_init_def tracker_init_def tracker.defs Let_def)
  have rl: "monitor (reduce_lr_init ''train_loss'' None (Fin 0) 1 (Fin 10)) = ''train_loss''"
    by (simp add: reduce_lr_init_def tracker_init_def tracker.defs Let_def)
  from missing_monitor_fails_at_fit_start [OF a t es sm rl,
         where eps = "[([Fin 1], ()), ([Fin 2], ())]"
           and ?st1.0 = "(tracker_init ''train_loss'' None (Fin 0), ?l)"
           and ?st2.0 = "(early_stopping_init ''train_loss'' None (Fin 0) 1, ?l)"
           and ?st3.0 = "(save_model_init ''train_loss'' None (Fin 0) ''model'' True, ?l)"
           and ?st4.0 = "(reduce_lr_init ''train_loss'' None (Fin 0) 1 (Fin 10), ?l)"]
  show ?thesis by simp
qed

section \<open>\<^verbatim>\<open>TerminateOnNaNCallback\<close>\<close>

text \<open>
  Claim C7. After a training batch the hook raises \<^verbatim>\<open>CancelFitException\<close> if and only if
  the batch loss is infinite or NaN, and changes nothing. So a run of batches whose first
  non-finite loss is \<open>y\<close> stops at \<open>y\<close>: the hook has run for the batches up to and
  including \<open>y\<close> and for none after it. For the batch losses 1.0, 2.0, NaN, 3.0 the abort
  comes at the NaN and the hook never sees the batch of loss 3.0.
\<close>

theorem nan_guard:
  assumes "\<forall>x \<in> set xs. \<not> isinf x \<and> \<not> isnan x" and "isinf y \<or> isnan y"
  shows "fst (terminate_on_nan_after_batch (s, l)) = (s, l)
       \<and> (snd (terminate_on_nan_after_batch (s, l)) = Some CancelFitException)
           = (isinf (loss l) \<or> isnan (loss l))
       \<and> (snd (terminate_on_nan_after_batch (s, l)) = None)
           = (\<not> (isinf (loss l) \<or> isnan (loss l)))
       \<and> run_hooks (batch_end terminate_on_nan_after_batch) (xs @ y # ys) (s, l) =
           (map (\<lambda>x. (s, l\<lparr>loss := x\<rparr>)) (xs @ [y]), Some CancelFitException)
       \<and> run_hooks (batch_end terminate_on_nan_after_batch) [Fin 1, Fin 2, NaN, Fin 3] (s, l) =
           ([(s, l\<lparr>loss := Fin 1\<rparr>), (s, l\<lparr>loss := Fin 2\<rparr>), (s, l\<lparr>loss := NaN\<rparr>)],
            Some CancelFitException)"
proof -
  have ex: "run_hooks (batch_end terminate_on_nan_after_batch) ([Fin 1, Fin 2] @ NaN # [Fin 3]) (s, l) =
          (map (\<lambda>x. (s, l\<lparr>loss := x\<rparr>)) ([Fin 1, Fin 2] @ [NaN]), Some CancelFitException)"
    by (rule terminate_on_nan_run) simp_all
  show ?thesis
    using ex terminate_on_nan_run [OF assms, where ys = ys and s = s and l = l] by (simp add: terminate_on_nan_hook)
qed

theorem nan_guard_witness:
  "run_hooks (batch_end terminate_on_nan_after_batch) [Fin 0.5, PosInf, Fin 0.25]
     ((), fresh_learner [''train_loss''] [] ()) =
   ([((), (fresh_learner [''train_loss''] [] ())\<lparr>loss := Fin 0.5\<rparr>),
     ((), (fresh_learner [''train_loss''] [] ())\<lparr>loss := PosInf\<rparr>)], Some CancelFitException)
   \<and> snd (terminate_on_nan_after_batch ((), (fresh_learner [''train_loss''] [] ())\<lparr>loss := NegInf\<rparr>)) =
       Some CancelFitException
   \<and> snd (terminate_on_nan_after_batch ((), (fresh_learner [''train_loss''] [] ())\<lparr>loss := Fin 2\<rparr>)) =
       None"
proof -
  have a: "\<forall>x \<in> set [Fin 0.5]. \<not> isinf x \<and> \<not> isnan x" by simp
  have b: "isinf PosInf \<or> isnan PosInf" by simp
  from nan_guard [OF a b, where ys = "[Fin 0.25]" and s = "()"
         and l = "fresh_learner [''train_loss''] [] ()"]
       nan_guard [OF a b, where ys = "[]" and s = "()"
         and l = "(fresh_learner [''train_loss''] [] ())\<lparr>loss := NegInf\<rparr>"]
       nan_guard [OF a b, where ys = "[]" and s = "()"
         and l = "(fresh_learner [''train_loss''] [] ())\<lparr>loss := Fin 2\<rparr>"]
  show ?thesis by simp
qed

section \<open>\<^verbatim>\<open>EarlyStoppingCallback\<close>\<close>

text \<open>
  Claim C3. An epoch of \<^verbatim>\<open>EarlyStoppingCallback\<close>, with \<^verbatim>\<open>wait\<close> at \<open>w\<close> before it: an
  improvement resets \<^verbatim>\<open>wait\<close> to 0 and raises nothing; a non-improvement sets \<^verbatim>\<open>wait\<close> to
  \<open>w + 1\<close> and raises \<^verbatim>\<open>CancelFitException\<close> if and only if the new \<^verbatim>\<open>wait\<close> is at least
  \<^verbatim>\<open>patience\<close>, after printing the message that names the epoch \<^verbatim>\<open>epoch - wait\<close>; without
  the abort nothing is printed or raised. With patience 2 and the values 1.0, 0.9, 0.95,
  0.97, 1.0 the abort is raised by the hook of the 4th epoch (index 3, message naming
  epoch 1), so the hook runs four times and never for the 5th epoch.
\<close>

theorem early_stopping_epoch:
  assumes "last_value l (idx s) = Inr val" and "best s = Some b"
    and "early_stopping.wait s = Some w"
  shows "(call_comp (comp_op s) (fsub val (min_delta s)) b \<longrightarrow>
            early_stopping_after_epoch (s, l) =
              ((s\<lparr>best := Some val, new_best := Some True, early_stopping.wait := Some 0\<rparr>, l),
               None))
       \<and> (\<not> call_comp (comp_op s) (fsub val (min_delta s)) b \<longrightarrow>
            fst (fst (early_stopping_after_epoch (s, l))) =
              s\<lparr>new_best := Some False, early_stopping.wait := Some (w + 1)\<rparr>
          \<and> (snd (early_stopping_after_epoch (s, l)) = Some CancelFitException)
              = (early_stopping.patience s \<le> w + 1)
          \<and> (snd (early_stopping_after_epoch (s, l)) = None)
              = (w + 1 < early_stopping.patience s)
          \<and> snd (fst (early_stopping_after_epoch (s, l))) =
              (if early_stopping.patience s \<le> w + 1
               then print_msg (NoImprovementSince (epoch l - (w + 1))) l else l))
       \<and> map (\<lambda>st. (best (fst st), early_stopping.wait (fst st)))
             (fst (snd early_stopping_example)) =
           [(Some (Fin 1.0), Some 0), (Some (Fin 0.9), Some 0),
            (Some (Fin 0.9), Some 1), (Some (Fin 0.9), Some 2)]
       \<and> snd (snd early_stopping_example) = Some CancelFitException
       \<and> events (snd (fst early_stopping_example)) = [Printed (NoImprovementSince 1)]"
  using assms(3) early_stopping_example_run
  by (simp add: early_stopping_after_epoch_read [OF assms(1,2)])

theorem early_stopping_epoch_witness:
  "early_stopping_after_epoch
     ((early_stopping_init ''valid_loss'' None (Fin 0) 2)
        \<lparr>best := Some (Fin 0.9), idx := Some 0, early_stopping.wait := Some 1\<rparr>,
      (fresh_learner [''train_loss'', ''valid_loss''] [] ())
        \<lparr>epoch := 3, rec_values := [[Fin 0.97]]\<rparr>) =
   (((early_stopping_init ''valid_loss'' None (Fin 0) 2)
        \<lparr>best := Some (Fin 0.9), idx := Some 0, new_best := Some False,
         early_stopping.wait := Some 2\<rparr>,
      (fresh_learner [''train_loss'', ''valid_loss''] [] ())
        \<lparr>epoch := 3, rec_values := [[Fin 0.97]], events := [Printed (NoImprovementSince 1)]\<rparr>),
    Some CancelFitException)"
proof -
  let ?s = "(early_stopping_init ''valid_loss'' None (Fin 0) 2)
        \<lparr>best := Some (Fin 0.9), idx := Some 0, early_stopping.wait := Some 1\<rparr>"
  let ?l = "(fresh_learner [''train_loss'', ''valid_loss''] [] ())
        \<lparr>epoch := 3, rec_values := [[Fin 0.97]]\<rparr>"
  have v: "last_value ?l (idx ?s) = Inr (Fin 0.97)"
    by (simp add: last_value_def fresh_learner_def)
  have b: "best ?s = Some (Fin 0.9)" and w: "early_stopping.wait ?s = Some 1"
    by simp_all
  have c: "\<not> call_comp (comp_op ?s) (fsub (Fin 0.97) (min_delta ?s)) (Fin 0.9)"
    and p: "early_stopping.patience ?s = 2"
    by (simp_all add: early_stopping_init_def tracker_init_def tracker.defs
          early_stopping.defs Let_def)
  from early_stopping_epoch [OF v b w] c p
  have "fst (fst (early_stopping_after_epoch (?s, ?l))) =
          ?s\<lparr>new_best := Some False, early_stopping.wait := Some 2\<rparr>"
    and "snd (early_stopping_after_epoch (?s, ?l)) = Some CancelFitException"
    and "snd (fst (early_stopping_after_epoch (?s, ?l))) = print_msg (NoImprovementSince 1) ?l"
    by simp_all
  then show ?thesis
    by (simp add: prod_eq_iff print_msg_def fresh_learner_def)
qed

section \<open>\<^verbatim>\<open>SaveModelCallback\<close>\<close>

text \<open>
  Claim C4. An epoch of \<^verbatim>\<open>SaveModelCallback\<close>. In every-epoch mode the hook saves the
  model under \<^verbatim>\<open>fname\<close>, an underscore and the epoch index, raises nothing and returns
  the callback as it was, whatever its tracker attributes are (even unset): two
  callbacks that differ in them only leave the same learner. In best-only mode, on a
  tracker that can read its value, the hook does the tracker's update and saves the
  model under the bare \<^verbatim>\<open>fname\<close> exactly when the update set a new best; otherwise the
  learner is left as it was. Saving writes the live model to the file of that name and
  is recorded as an event. For the values 0.5, 0.4, 0.6, 0.3 the best-only fit saves
  after the epochs 1, 2 and 4 and not after epoch 3 (where the file still holds the
  model of epoch 2); the every-epoch fit saves \<^verbatim>\<open>model_0\<close> to \<^verbatim>\<open>model_3\<close> and leaves
  \<^verbatim>\<open>best\<close> at its initial value and \<^verbatim>\<open>new_best\<close> unset.
\<close>

theorem save_model_epoch:
  "(every_epoch s \<longrightarrow>
      save_model_after_epoch (s, l) =
        ((s, learn_save (fname s @ ''_'' @ str_int (epoch l)) l), None))
   \<and> (every_epoch s \<and> every_epoch s' \<and> fname s' = fname s \<longrightarrow>
        snd (fst (save_model_after_epoch (s', l))) = snd (fst (save_model_after_epoch (s, l))))
   \<and> (\<not> every_epoch s \<and> last_value l (idx s) = Inr val \<and> best s = Some b \<longrightarrow>
        save_model_after_epoch (s, l) =
          (if call_comp (comp_op s) (fsub val (min_delta s)) b
           then ((s\<lparr>best := Some val, new_best := Some True\<rparr>, learn_save (fname s) l), None)
           else ((s\<lparr>new_best := Some False\<rparr>, l), None)))
   \<and> files (learn_save name l) = (files l)(name @ ''.pth'' \<mapsto> model l)
   \<and> events (learn_save name l) = events l @ [Saved name]
   \<and> map (\<lambda>st. (new_best (fst st), files (snd st) ''model.pth'', events (snd st)))
         (fst (snd (save_model_example False
            [([Fin 0.5], 1), ([Fin 0.4], 2), ([Fin 0.6], 3), ([Fin 0.3], 4)]))) =
       [(Some True, Some 1, [Saved ''model'']),
        (Some True, Some 2, [Saved ''model'', Saved ''model'']),
        (Some False, Some 2, [Saved ''model'', Saved ''model'']),
        (Some True, Some 4, [Saved ''model'', Saved ''model'', Saved ''model''])]
   \<and> map (\<lambda>st. (new_best (fst st), best (fst st), events (snd st)))
         (fst (snd (save_model_example True
            [([Fin 0.5], 1), ([Fin 0.4], 2), ([Fin 0.6], 3), ([Fin 0.3], 4)]))) =
       [(None, Some PosInf, [Saved ''model_0'']),
        (None, Some PosInf, [Saved ''model_0'', Saved ''model_1'']),
        (None, Some PosInf, [Saved ''model_0'', Saved ''model_1'', Saved ''model_2'']),
        (None, Some PosInf,
         [Saved ''model_0'', Saved ''model_1'', Saved ''model_2'', Saved ''model_3''])]"
proof -
  have a: "every_epoch s \<longrightarrow>
      save_model_after_epoch (s, l) =
        ((s, learn_save (fname s @ ''_'' @ str_int (epoch l)) l), None)"
    by (simp add: save_model_after_epoch_every)
  have b: "every_epoch s \<and> every_epoch s' \<and> fname s' = fname s \<longrightarrow>
        snd (fst (save_model_after_epoch (s', l))) = snd (fst (save_model_after_epoch (s, l)))"
    by (simp add: save_model_after_epoch_every)
  have c: "\<not> every_epoch s \<and> last_value l (idx s) = Inr val \<and> best s = Some b \<longrightarrow>
        save_model_after_epoch (s, l) =
          (if call_comp (comp_op s) (fsub val (min_delta s)) b
           then ((s\<lparr>best := Some val, new_best := Some True\<rparr>, learn_save (fname s) l), None)
           else ((s\<lparr>new_best := Some False\<rparr>, l), None))"
    using save_model_after_epoch_read [of s l val b] by blast
  have d: "files (learn_save name l) = (files l)(name @ ''.pth'' \<mapsto> model l)"
    "events (learn_save name l) = events l @ [Saved name]"
    by (simp_all add: learn_save_def pth_def)
  from a b c d save_model_example_best_only save_model_example_every_epoch
  show ?thesis by blast
qed

theorem save_model_epoch_witness:
  "save_model_after_epoch
     (save_model_init ''valid_loss'' None (Fin 0) ''model'' True,
      (fresh_learner [''train_loss'', ''valid_loss''] [] (7::nat))\<lparr>epoch := 3\<rparr>) =
   ((save_model_init ''valid_loss'' None (Fin 0) ''model'' True,
     (fresh_learner [''train_loss'', ''valid_loss''] [] 7)
       \<lparr>epoch := 3, files := [''model_3.pth'' \<mapsto> 7], events := [Saved ''model_3'']\<rparr>), None)
   \<and> save_model_after_epoch
     ((save_model_init ''valid_loss'' None (Fin 0) ''model'' False)
        \<lparr>best := Some (Fin 0.4), idx := Some 0\<rparr>,
      (fresh_learner [''train_loss'', ''valid_loss''] [] (7::nat))\<lparr>rec_values := [[Fin 0.3]]\<rparr>) =
   (((save_model_init ''valid_loss'' None (Fin 0) ''model'' False)
        \<lparr>best := Some (Fin 0.3), idx := Some 0, new_best := Some True\<rparr>,
     (fresh_learner [''train_loss'', ''valid_loss''] [] 7)
       \<lparr>rec_values := [[Fin 0.3]], files := [''model.pth'' \<mapsto> 7], events := [Saved ''model'']\<rparr>),
    None)
   \<and> save_model_after_epoch
     ((save_model_init ''valid_loss'' None (Fin 0) ''model'' False)
        \<lparr>best := Some (Fin 0.4), idx := Some 0\<rparr>,
      (fresh_learner [''train_loss'', ''valid_loss''] [] (7::nat))\<lparr>rec_values := [[Fin 0.6]]\<rparr>) =
   (((save_model_init ''valid_loss'' None (Fin 0) ''model'' False)
        \<lparr>best := Some (Fin 0.4), idx := Some 0, new_best := Some False\<rparr>,
     (fresh_learner [''train_loss'', ''valid_loss''] [] 7)\<lparr>rec_values := [[Fin 0.6]]\<rparr>), None)
   \<and> snd (fst (save_model_after_epoch
        ((save_model_init ''valid_loss'' None (Fin 0) ''model'' True)
           \<lparr>best := Some (Fin 0.4), idx := Some 0, new_best := Some True\<rparr>,
         (fresh_learner [''train_loss'', ''valid_loss''] [] (7::nat))\<lparr>epoch := 3\<rparr>))) =
       snd (fst (save_model_after_epoch
        (save_model_init ''valid_loss'' None (Fin 0) ''model'' True,
         (fresh_learner [''train_loss'', ''valid_loss''] [] (7::nat))\<lparr>epoch := 3\<rparr>)))"
proof -
  let ?e = "save_model_init ''valid_loss'' None (Fin 0) ''model'' True"
  let ?s = "(save_model_init ''valid_loss'' None (Fin 0) ''model'' False)
        \<lparr>best := Some (Fin 0.4), idx := Some 0\<rparr>"
  let ?l0 = "(fresh_learner [''train_loss'', ''valid_loss''] [] (7::nat))\<lparr>epoch := 3\<rparr>"
  let ?l1 = "(fresh_learner [''train_loss'', ''valid_loss''] [] (7::nat))\<lparr>rec_values := [[Fin 0.3]]\<rparr>"
  let ?l2 = "(fresh_learner [''train_loss'', ''valid_loss''] [] (7::nat))\<lparr>rec_values := [[Fin 0.6]]\<rparr>"
  have cfg: "every_epoch ?e" "fname ?e = ''model''" "\<not> every_epoch ?s" "fname ?s = ''model''"
    "comp_op ?s = NpLess" "min_delta ?s = Fin 0" "best ?s = Some (Fin 0.4)"
    by (simp_all add: save_model_init_def tracker_init_def tracker.defs save_model.defs Let_def)
  have v1: "last_value ?l1 (idx ?s) = Inr (Fin 0.3)"
    and v2: "last_value ?l2 (idx ?s) = Inr (Fin 0.6)"
    by (simp_all add: last_value_def fresh_learner_def)
  from save_model_epoch [where s = ?e and l = ?l0] cfg(1,2)
  have a: "save_model_after_epoch (?e, ?l0) = ((?e, learn_save ''model_3'' ?l0), None)"
    by (simp add: str_int_digits)
  from save_model_epoch [where s = ?s and l = ?l1 and val = "Fin 0.3" and b = "Fin 0.4"]
    cfg(3-7) v1
  have b: "save_model_after_epoch (?s, ?l1) =
      ((?s\<lparr>best := Some (Fin 0.3), new_best := Some True\<rparr>, learn_save ''model'' ?l1), None)"
    by simp
  from save_model_epoch [where s = ?s and l = ?l2 and val = "Fin 0.6" and b = "Fin 0.4"]
    cfg(3-7) v2
  have c: "save_model_after_epoch (?s, ?l2) = ((?s\<lparr>new_best := Some False\<rparr>, ?l2), None)"
    by simp
  from save_model_epoch [where s = ?e and l = ?l0
      and s' = "?e\<lparr>best := Some (Fin 0.4), idx := Some 0, new_best := Some True\<rparr>"] cfg(1,2)
  have d: "snd (fst (save_model_after_epoch
        (?e\<lparr>best := Some (Fin 0.4), idx := Some 0, new_best := Some True\<rparr>, ?l0))) =
      snd (fst (save_model_after_epoch (?e, ?l0)))"
    by simp
  show ?thesis
    unfolding d unfolding a b c by (simp add: learn_save_def pth_def fresh_learner_def)
qed




section \<open>\<^verbatim>\<open>ReduceLROnPlateau\<close>\<close>

text \<open>
  Claim C6, as amended. An epoch of \<^verbatim>\<open>ReduceLROnPlateau\<close> on which the patience counter
  triggers (no improvement, and \<^verbatim>\<open>wait\<close>, once incremented, is at least \<^verbatim>\<open>patience\<close>),
  with a \<^verbatim>\<open>factor\<close> that is not zero: the learning rate of every hyperparameter group is
  divided by \<^verbatim>\<open>factor\<close>, \<^verbatim>\<open>wait\<close> is reset to 0, and nothing is raised when the optimizer
  has a group (with no group at all the line that reports the last group's rate raises
  \<^verbatim>\<open>IndexError\<close>, after the reset). In no state and for no factor does the hook raise
  \<^verbatim>\<open>CancelFitException\<close>. With patience 1, factor 10 and two groups of rate 0.1, the values
  1.0, 1.0 leave both rates at 0.01 after the 2nd epoch, and the fit goes on to its end
  without an exception.
\<close>

theorem reduce_lr_on_plateau:
  assumes "last_value l (idx s) = Inr val" and "best s = Some b"
    and "reduce_lr.wait s = Some w"
    and "\<not> call_comp (comp_op s) (fsub val (min_delta s)) b"
    and "reduce_lr.patience s \<le> w + 1"
    and "factor s \<noteq> Fin 0"
  shows "fst (fst (reduce_lr_after_epoch (s, l))) =
           s\<lparr>new_best := Some False, reduce_lr.wait := Some 0\<rparr>
       \<and> map (\<lambda>h. Inr (lr h)) (hypers (snd (fst (reduce_lr_after_epoch (s, l))))) =
           map (\<lambda>h. fdiv (lr h) (factor s)) (hypers l)
       \<and> snd (reduce_lr_after_epoch (s, l)) = (if hypers l = [] then Some IndexError else None)
       \<and> snd (reduce_lr_after_epoch st) \<noteq> Some CancelFitException
       \<and> map (\<lambda>st. (reduce_lr.wait (fst st), hypers (snd st)))
             (fst (snd (reduce_lr_example (Fin 10)))) =
           [(Some 0, [\<lparr>lr = Fin 0.1\<rparr>, \<lparr>lr = Fin 0.1\<rparr>]),
            (Some 0, [\<lparr>lr = Fin 0.01\<rparr>, \<lparr>lr = Fin 0.01\<rparr>])]
       \<and> snd (snd (reduce_lr_example (Fin 10))) = None
       \<and> events (snd (fst (reduce_lr_example (Fin 10)))) = [Printed (ReducingLr 1 (Fin 0.01))]"
  using reduce_lr_triggered [OF assms] reduce_lr_after_epoch_exn(2) [of st]
    reduce_lr_example_run
  by blast

theorem reduce_lr_on_plateau_witness:
  "fst (fst (reduce_lr_after_epoch
     ((reduce_lr_init ''valid_loss'' None (Fin 0) 1 (Fin 10))
        \<lparr>best := Some (Fin 1), idx := Some 0, reduce_lr.wait := Some 0\<rparr>,
      (fresh_learner [''train_loss'', ''valid_loss''] [\<lparr>lr = Fin 0.1\<rparr>, \<lparr>lr = Fin 0.1\<rparr>] ())
        \<lparr>epoch := 1, rec_values := [[Fin 1], [Fin 1]]\<rparr>))) =
     (reduce_lr_init ''valid_loss'' None (Fin 0) 1 (Fin 10))
        \<lparr>best := Some (Fin 1), idx := Some 0, new_best := Some False, reduce_lr.wait := Some 0\<rparr>
   \<and> map lr (hypers (snd (fst (reduce_lr_after_epoch
     ((reduce_lr_init ''valid_loss'' None (Fin 0) 1 (Fin 10))
        \<lparr>best := Some (Fin 1), idx := Some 0, reduce_lr.wait := Some 0\<rparr>,
      (fresh_learner [''train_loss'', ''valid_loss''] [\<lparr>lr = Fin 0.1\<rparr>, \<lparr>lr = Fin 0.1\<rparr>] ())
        \<lparr>epoch := 1, rec_values := [[Fin 1], [Fin 1]]\<rparr>))))) = [Fin 0.01, Fin 0.01]
   \<and> snd (reduce_lr_after_epoch
     ((reduce_lr_init ''valid_loss'' None (Fin 0) 1 (Fin 10))
        \<lparr>best := Some (Fin 1), idx := Some 0, reduce_lr.wait := Some 0\<rparr>,
      (fresh_learner [''train_loss'', ''valid_loss''] [\<lparr>lr = Fin 0.1\<rparr>, \<lparr>lr = Fin 0.1\<rparr>] ())
        \<lparr>epoch := 1, rec_values := [[Fin 1], [Fin 1]]\<rparr>)) = None"
proof -
  let ?s = "(reduce_lr_init ''valid_loss'' None (Fin 0) 1 (Fin 10))
        \<lparr>best := Some (Fin 1), idx := Some 0, reduce_lr.wait := Some 0\<rparr>"
  let ?l = "(fresh_learner [''train_loss'', ''valid_loss''] [\<lparr>lr = Fin 0.1\<rparr>, \<lparr>lr = Fin 0.1\<rparr>] ())
        \<lparr>epoch := 1, rec_values := [[Fin 1], [Fin 1]]\<rparr>"
  have v: "last_value ?l (idx ?s) = Inr (Fin 1)"
    by (simp add: last_value_def fresh_learner_def)
  have b: "best ?s = Some (Fin 1)" and w: "reduce_lr.wait ?s = Some 0" by simp_all
  have c: "\<not> call_comp (comp_op ?s) (fsub (Fin 1) (min_delta ?s)) (Fin 1)"
    and p: "reduce_lr.patience ?s \<le> 0 + 1" and f: "factor ?s \<noteq> Fin 0"
    and fv: "factor ?s = Fin 10"
    by (simp_all add: reduce_lr_init_def tracker_init_def tracker.defs reduce_lr.defs Let_def)
  have h: "hypers ?l = [\<lparr>lr = Fin 0.1\<rparr>, \<lparr>lr = Fin 0.1\<rparr>]"
    by (simp add: fresh_learner_def)
  from reduce_lr_on_plateau [OF v b w c p f]
  have r1: "fst (fst (reduce_lr_after_epoch (?s, ?l))) =
              ?s\<lparr>new_best := Some False, reduce_lr.wait := Some 0\<rparr>"
    and r2: "map (\<lambda>h. Inr (lr h)) (hypers (snd (fst (reduce_lr_after_epoch (?s, ?l))))) =
              map (\<lambda>h. fdiv (lr h) (factor ?s)) (hypers ?l)"
    and r3: "snd (reduce_lr_after_epoch (?s, ?l)) = (if hypers ?l = [] then Some IndexError else None)"
    by blast+
  from r2 have "map (\<lambda>h. (Inr (lr h) :: exn + pyfloat)) (hypers (snd (fst (reduce_lr_after_epoch (?s, ?l))))) =
      map Inr [Fin 0.01, Fin 0.01]"
    by (simp add: fv h)
  then have "map (Inr :: pyfloat \<Rightarrow> exn + pyfloat) (map lr (hypers (snd (fst (reduce_lr_after_epoch (?s, ?l)))))) =
      map Inr [Fin 0.01, Fin 0.01]"
    by (simp add: comp_def)
  then have r2': "map lr (hypers (snd (fst (reduce_lr_after_epoch (?s, ?l))))) = [Fin 0.01, Fin 0.01]"
    by (metis inj_Inr inj_map_eq_map)
  from r1 r2' r3 h show ?thesis by simp
qed

text \<open>
  Claim C6 as the spec states it, without the condition on \<^verbatim>\<open>factor\<close>, fails: with factor
  0 the same fit reaches the trigger at the 2nd epoch, where the first division raises
  \<^verbatim>\<open>ZeroDivisionError\<close>; \<^verbatim>\<open>wait\<close> stays at 1 (the patience), the rates stay at 0.1 and
  the fit ends with that exception.
\<close>

theorem reduce_lr_zero_factor_counterexample:
  "length (fst (snd (reduce_lr_example (Fin 0)))) = 2
   \<and> new_best (fst (last (fst (snd (reduce_lr_example (Fin 0)))))) = Some False
   \<and> reduce_lr.wait (fst (last (fst (snd (reduce_lr_example (Fin 0)))))) = Some 1
   \<and> reduce_lr.patience (fst (last (fst (snd (reduce_lr_example (Fin 0)))))) = 1
   \<and> hypers (snd (last (fst (snd (reduce_lr_example (Fin 0)))))) =
       [\<lparr>lr = Fin 0.1\<rparr>, \<lparr>lr = Fin 0.1\<rparr>]
   \<and> snd (snd (reduce_lr_example (Fin 0))) = Some ZeroDivisionError"
  by (simp add: reduce_lr_example_def example_defs reduce_lr_begin_fit_def
      reduce_lr_after_epoch_def reduce_lr_init_def reduce_lr.defs)

end
